theory Spec2Isabelle
  imports Complex_Main
begin

section \<open>Python values used by the consensus module\<close>

text \<open>
  The development embeds \<^verbatim>\<open>core/multi_agent_consensus_system.py\<close> together with the
  data classes it imports from \<^verbatim>\<open>core/ten_agent_architecture.py\<close>.

  Python floats are modelled as reals: rounding is not modelled.  Python strings are
  modelled as lists of 8-bit characters and read as ASCII text.  Logging is left out.
  A call reads the clock several times, for identifiers and time stamps; the model hands
  one reading, \<open>now\<close>, to each function that reads it.
\<close>

subsection \<open>Exceptions\<close>

text \<open>Each exception carries the name or the operation that Python reports.\<close>

datatype error = TypeError string | AttributeError string

subsection \<open>Strings\<close>

text \<open>\<^verbatim>\<open>str.lower()\<close> on ASCII text: the 26 capital letters are mapped, all else is kept.\<close>

definition lower_char :: "char \<Rightarrow> char" where
  "lower_char c =
     (case map_of (zip ''ABCDEFGHIJKLMNOPQRSTUVWXYZ'' ''abcdefghijklmnopqrstuvwxyz'') c of
        None \<Rightarrow> c
      | Some l \<Rightarrow> l)"

definition lower :: "string \<Rightarrow> string" where
  "lower s = map lower_char s"

text \<open>
  \<^verbatim>\<open>str.split()\<close> without arguments: the maximal runs of non-whitespace characters.
  The whitespace characters are those of \<^verbatim>\<open>str.isspace\<close> in the ASCII range.
\<close>

definition is_space :: "char \<Rightarrow> bool" where
  "is_space c \<longleftrightarrow>
     c \<in> set [CHR 0x09, CHR 0x0A, CHR 0x0B, CHR 0x0C, CHR 0x0D,
                CHR 0x1C, CHR 0x1D, CHR 0x1E, CHR 0x1F, CHR 0x20]"

fun split_from :: "string \<Rightarrow> string \<Rightarrow> string list" where
  "split_from word [] = (if word = [] then [] else [word])"
| "split_from word (c # cs) =
     (if is_space c then (if word = [] then split_from [] cs else word # split_from [] cs)
      else split_from (word @ [c]) cs)"

definition split :: "string \<Rightarrow> string list" where
  "split s = split_from [] s"

text \<open>\<^verbatim>\<open>sep.join(parts)\<close>.\<close>

fun join :: "string \<Rightarrow> string list \<Rightarrow> string" where
  "join sep [] = []"
| "join sep [p] = p"
| "join sep (p # q # ps) = p @ sep @ join sep (q # ps)"

text \<open>\<^verbatim>\<open>s.startswith(k)\<close> and the substring test \<^verbatim>\<open>k in s\<close>.\<close>

fun startswith :: "string \<Rightarrow> string \<Rightarrow> bool" where
  "startswith s [] = True"
| "startswith [] (k # ks) = False"
| "startswith (c # cs) (k # ks) = (c = k \<and> startswith cs ks)"

fun str_in :: "string \<Rightarrow> string \<Rightarrow> bool" where
  "str_in k [] = (k = [])"
| "str_in k (c # cs) = (startswith (c # cs) k \<or> str_in k cs)"

subsection \<open>Arithmetic mean\<close>

text \<open>
  \<^verbatim>\<open>np.mean\<close> on a non-empty list.  On an empty list numpy returns \<^verbatim>\<open>nan\<close>.  Every
  call below is guarded by a test for emptiness, as its call in the source is; the one
  unguarded call of the source, in the landscape analysis, is modelled with an option.
\<close>

definition np_mean :: "real list \<Rightarrow> real" where
  "np_mean xs = sum_list xs / real (length xs)"

section \<open>EvidenceEvaluator: the score of an evidence item\<close>

definition specificity_keywords :: "string list" where
  "specificity_keywords =
     [''data'', ''metric'', ''measurement'', ''specific'', ''example'', ''study'', ''research'']"

definition specificity_count :: "string \<Rightarrow> nat" where
  "specificity_count evidence =
     length (filter (\<lambda>keyword. str_in keyword (lower evidence)) specificity_keywords)"

definition evaluate_single_evidence :: "string \<Rightarrow> real" where
  "evaluate_single_evidence evidence =
     (if evidence = [] then 0.0
      else let length_score = min 1.0 (real (length evidence) / 100);
               quality_score = 0.5 + length_score * 0.2 + real (specificity_count evidence) * 0.1
           in min 1.0 quality_score)"

section \<open>Data model\<close>

text \<open>
  The enumerations of \<^verbatim>\<open>ten_agent_architecture.py\<close> and of the consensus module.
  \<^verbatim>\<open>VotingMethod.UNANIMOUS\<close> is written \<open>UNANIMOUS_VOTE\<close>, the name \<open>UNANIMOUS\<close> being
  that of the consensus level.
\<close>

datatype AgentRole =
    QUEEN_COORDINATOR | CODE_ARCHITECT | SECURITY_SPECIALIST | PERFORMANCE_OPTIMIZER
  | UI_UX_DESIGNER | INTEGRATION_EXPERT | TESTING_QUALITY | DOCUMENTATION_TECH_WRITER
  | DATA_ANALYTICS | INNOVATION_STRATEGIST

fun role_value :: "AgentRole \<Rightarrow> string" where
  "role_value QUEEN_COORDINATOR = ''queen_coordinator''"
| "role_value CODE_ARCHITECT = ''code_architect''"
| "role_value SECURITY_SPECIALIST = ''security_specialist''"
| "role_value PERFORMANCE_OPTIMIZER = ''performance_optimizer''"
| "role_value UI_UX_DESIGNER = ''ui_ux_designer''"
| "role_value INTEGRATION_EXPERT = ''integration_expert''"
| "role_value TESTING_QUALITY = ''testing_quality''"
| "role_value DOCUMENTATION_TECH_WRITER = ''documentation_tech_writer''"
| "role_value DATA_ANALYTICS = ''data_analytics''"
| "role_value INNOVATION_STRATEGIST = ''innovation_strategist''"

datatype TaskPriority = CRITICAL | HIGH | MEDIUM | LOW | BACKGROUND

datatype ConsensusLevel =
    UNANIMOUS | MAJORITY_SUPER | MAJORITY_STRONG | MAJORITY_SIMPLE | PLURALITY
  | SPECIALIST_OVERRIDE

datatype ConsensusStrategy =
    WEIGHTED_VOTING | SPECIALIST_AUTHORITY | EVIDENCE_BASED | COLLABORATIVE_SYNTHESIS
  | ITERATIVE_REFINEMENT | CONFLICT_RESOLUTION | EMERGENT_AGREEMENT | HYBRID_ADAPTIVE

datatype DeliberationPhase =
    INITIAL_POSITIONS | EVIDENCE_PRESENTATION | CROSS_VALIDATION | NEGOTIATION | SYNTHESIS
  | VALIDATION

datatype VotingMethod =
    SIMPLE_MAJORITY | SUPER_MAJORITY | QUALIFIED_MAJORITY | UNANIMOUS_VOTE
  | WEIGHTED_CONSENSUS | CONDORCET | BORDA_COUNT | APPROVAL_VOTING

datatype ConflictType =
    FACTUAL_DISAGREEMENT | METHODOLOGICAL_CONFLICT | PRIORITY_DISAGREEMENT
  | RESOURCE_ALLOCATION | STRATEGIC_DIVERGENCE | EXPERTISE_CLAIM | VALUE_CONFLICT

text \<open>
  The data classes.  Time stamps are seconds read from the clock.  A Python \<^verbatim>\<open>dict\<close> is
  an association list in insertion order; in a dictionary the keys are distinct.
\<close>

record AgentThought =
  agent_id :: string
  agent_role :: AgentRole
  thought_id :: string
  content :: string
  reasoning :: string
  confidence :: real
  timestamp :: nat
  dependencies :: "string list"
  evidence :: "string list"
  alternatives :: "string list"

text \<open>
  \<^verbatim>\<open>AGITask.dependencies\<close> and \<^verbatim>\<open>AGITask.context\<close> are named \<open>task_dependencies\<close>
  and \<open>task_context\<close> here: \<open>dependencies\<close> is the selector of \<^verbatim>\<open>AgentThought\<close>, and
  \<open>context\<close> is reserved.
\<close>

record AGITask =
  task_id :: string
  description :: string
  priority :: TaskPriority
  required_agents :: "AgentRole list"
  task_context :: "(string \<times> string) list"
  created_at :: nat
  deadline :: "nat option"
  task_dependencies :: "string list"
  quality_threshold :: real

text \<open>
  \<^verbatim>\<open>CollectiveInsight.synthesized_content\<close> is display text.  The fallback paths build it
  by joining position texts, and that text is modelled.  The weighted-voting and
  specialist-authority paths render markdown with a \<^verbatim>\<open>%.2f\<close> print of each weight; for
  them the model keeps the data that is rendered, in the order in which it is rendered.
\<close>

datatype synthesis =
    Text string
  | Weighted_Synthesis "(string \<times> real) list"
  | Specialist_Leadership AgentRole string string "(AgentRole \<times> string) list"

record CollectiveInsight =
  insight_id :: string
  contributing_agents :: "AgentRole list"
  synthesized_content :: synthesis
  consensus_level :: ConsensusLevel
  confidence_score :: real
  conflicting_views :: "(AgentRole \<times> string) list"
  synthesis_method :: string

type_synonym conflict = "ConflictType \<times> AgentRole \<times> AgentRole \<times> string"

text \<open>
  \<^verbatim>\<open>ConsensusProposal\<close> with its fields in the order of the data class; the module never
  builds one, and the proposal list of a deliberation stays empty.
\<close>

datatype ConsensusProposal =
  ConsensusProposal string AgentRole string string "string list" real real
    "AgentRole list" "AgentRole list" "AgentRole list" nat

record ConsensusDeliberation =
  deliberation_id :: string
  task :: AGITask
  strategy :: ConsensusStrategy
  voting_method :: VotingMethod
  phases :: "DeliberationPhase list"
  proposals :: "ConsensusProposal list"
  agent_positions :: "(AgentRole \<times> string) list"
  evidence_registry :: "(AgentRole \<times> string list) list"
  conflict_log :: "conflict list"
  voting_record :: "(AgentRole \<times> string list) list"
  final_consensus :: "CollectiveInsight option"
  deliberation_start :: nat
  deliberation_end :: "nat option"
  quality_metrics :: "(string \<times> real) list"

text \<open>
  The position objects are mutable and a dictionary holds references to them: the heap is
  the list of the objects, a reference is an index into it.  A function that only reads
  the positions takes the dictionary by value, as \<open>deref\<close> gives it.
\<close>

type_synonym ref = nat
type_synonym heap = "AgentThought list"
type_synonym thoughts = "(AgentRole \<times> AgentThought) list"

definition deref :: "heap \<Rightarrow> (AgentRole \<times> ref) list \<Rightarrow> thoughts" where
  "deref h refs = map (\<lambda>(role, a). (role, h ! a)) refs"

text \<open>Decimal print of a clock reading, as in \<^verbatim>\<open>f"..._{int(time.time())}"\<close>.\<close>

fun str_of_nat :: "nat \<Rightarrow> string" where
  "str_of_nat n =
     (if n < 10 then [''0123456789'' ! n]
      else str_of_nat (n div 10) @ [''0123456789'' ! (n mod 10)])"

section \<open>EvidenceEvaluator: the score of a participant\<close>

text \<open>
  \<^verbatim>\<open>evaluate_evidence_quality\<close>: one score per key of the registry, \<open>0.0\<close> for an empty
  evidence list and the mean of the item scores otherwise.
\<close>

definition evidence_score :: "string list \<Rightarrow> real" where
  "evidence_score evidence_list =
     (if evidence_list = [] then 0.0
      else np_mean (map evaluate_single_evidence evidence_list))"

definition evaluate_evidence_quality ::
  "(AgentRole \<times> string list) list \<Rightarrow> (AgentRole \<times> real) list" where
  "evaluate_evidence_quality registry =
     map (\<lambda>(role, evidence_list). (role, evidence_score evidence_list)) registry"

section \<open>ConflictDetector\<close>

definition opposite_keywords :: "(string \<times> string) list" where
  "opposite_keywords =
     [(''yes'', ''no''), (''true'', ''false''), (''implement'', ''avoid''),
      (''enable'', ''disable''), (''include'', ''exclude''), (''add'', ''remove'')]"

definition are_opposite_positions :: "string \<Rightarrow> string \<Rightarrow> bool" where
  "are_opposite_positions content1 content2 =
     list_ex (\<lambda>(word1, word2).
        (str_in word1 (lower content1) \<and> str_in word2 (lower content2)) \<or>
        (str_in word2 (lower content1) \<and> str_in word1 (lower content2)))
       opposite_keywords"

definition priority_indicators :: "string list" where
  "priority_indicators = [''critical'', ''urgent'', ''important'', ''optional'', ''secondary'']"

definition approach_keywords :: "string list" where
  "approach_keywords =
     [''top-down'', ''bottom-up'', ''iterative'', ''waterfall'', ''agile'',
      ''proactive'', ''reactive'', ''preventive'', ''corrective'']"

definition strategic_keywords :: "string list" where
  "strategic_keywords =
     [''long-term'', ''short-term'', ''scalable'', ''maintainable'',
      ''innovative'', ''conservative'', ''aggressive'', ''defensive'']"

text \<open>
  The three remaining tests share one shape: list the table words found in each text, in
  table order, and compare the first of each list when both lists are non-empty.
\<close>

definition found_words :: "string list \<Rightarrow> string \<Rightarrow> string list" where
  "found_words table s = filter (\<lambda>word. str_in word (lower s)) table"

definition first_words_differ :: "string list \<Rightarrow> string list \<Rightarrow> bool" where
  "first_words_differ ws1 ws2 =
     (case (ws1, ws2) of (w1 # _, w2 # _) \<Rightarrow> w1 \<noteq> w2 | _ \<Rightarrow> False)"

definition have_different_priorities :: "string \<Rightarrow> string \<Rightarrow> bool" where
  "have_different_priorities content1 content2 =
     first_words_differ (found_words priority_indicators content1)
                        (found_words priority_indicators content2)"

definition have_different_approaches :: "string \<Rightarrow> string \<Rightarrow> bool" where
  "have_different_approaches reasoning1 reasoning2 =
     first_words_differ (found_words approach_keywords reasoning1)
                        (found_words approach_keywords reasoning2)"

definition have_strategic_divergence :: "string \<Rightarrow> string \<Rightarrow> bool" where
  "have_strategic_divergence content1 content2 =
     first_words_differ (found_words strategic_keywords content1)
                        (found_words strategic_keywords content2)"

definition analyze_conflict_between_agents ::
  "AgentThought \<Rightarrow> AgentThought \<Rightarrow> (ConflictType \<times> string) list" where
  "analyze_conflict_between_agents thought1 thought2 =
     (if are_opposite_positions (content thought1) (content thought2)
      then [(FACTUAL_DISAGREEMENT, ''Opposite conclusions'')] else []) @
     (if have_different_priorities (content thought1) (content thought2)
      then [(PRIORITY_DISAGREEMENT, ''Different priority levels'')] else []) @
     (if have_different_approaches (reasoning thought1) (reasoning thought2)
      then [(METHODOLOGICAL_CONFLICT, ''Different methodological approaches'')] else []) @
     (if have_strategic_divergence (content thought1) (content thought2)
      then [(STRATEGIC_DIVERGENCE, ''Different strategic directions'')] else [])"

fun detect_conflicts :: "thoughts \<Rightarrow> conflict list" where
  "detect_conflicts [] = []"
| "detect_conflicts ((role1, thought1) # agent_list) =
     concat (map (\<lambda>(role2, thought2).
                    map (\<lambda>(conflict_type, descr). (conflict_type, role1, role2, descr))
                        (analyze_conflict_between_agents thought1 thought2))
                 agent_list)
     @ detect_conflicts agent_list"

section \<open>ConflictResolver\<close>

text \<open>
  The resolver mutates the position objects in place.  Each assignment of the source is
  one heap update below, applied in the source's order, so that two dictionary entries
  that hold the same object behave as they do in Python.
\<close>

definition scale_confidence :: "ref \<Rightarrow> real \<Rightarrow> heap \<Rightarrow> heap" where
  "scale_confidence a k h = h[a := (h ! a)\<lparr>confidence := confidence (h ! a) * k\<rparr>]"

definition append_reasoning :: "ref \<Rightarrow> string \<Rightarrow> heap \<Rightarrow> heap" where
  "append_reasoning a s h = h[a := (h ! a)\<lparr>reasoning := reasoning (h ! a) @ s\<rparr>]"

definition set_reasoning :: "ref \<Rightarrow> string \<Rightarrow> heap \<Rightarrow> heap" where
  "set_reasoning a s h = h[a := (h ! a)\<lparr>reasoning := s\<rparr>]"

definition set_content :: "ref \<Rightarrow> string \<Rightarrow> heap \<Rightarrow> heap" where
  "set_content a s h = h[a := (h ! a)\<lparr>content := s\<rparr>]"

text \<open>\<^verbatim>\<open>d[k] = v\<close>: an existing key keeps its place, a new key goes to the end.\<close>

fun dict_set :: "('k \<times> 'v) list \<Rightarrow> 'k \<Rightarrow> 'v \<Rightarrow> ('k \<times> 'v) list" where
  "dict_set [] k v = [(k, v)]"
| "dict_set ((k', v') # d) k v = (if k' = k then (k, v) # d else (k', v') # dict_set d k v)"

definition evidence_strength :: "AgentThought \<Rightarrow> real" where
  "evidence_strength thought = real (length (evidence thought)) * confidence thought"

definition resolve_factual_pair ::
  "(AgentRole \<times> ref) list \<Rightarrow> AgentRole \<times> AgentRole \<times> string \<Rightarrow> heap \<Rightarrow> heap" where
  "resolve_factual_pair resolved_thoughts c h =
     (case c of (role1, role2, descr) \<Rightarrow>
       (case (map_of resolved_thoughts role1, map_of resolved_thoughts role2) of
          (Some a1, Some a2) \<Rightarrow>
            let evidence1_strength = evidence_strength (h ! a1);
                evidence2_strength = evidence_strength (h ! a2)
            in if evidence1_strength > evidence2_strength then
                 append_reasoning a2
                   ('' [Conflict resolved in favor of '' @ role_value role1 @
                    '' due to stronger evidence]'')
                   (scale_confidence a2 0.5 h)
               else if evidence2_strength > evidence1_strength then
                 append_reasoning a1
                   ('' [Conflict resolved in favor of '' @ role_value role2 @
                    '' due to stronger evidence]'')
                   (scale_confidence a1 0.5 h)
               else
                 append_reasoning a2 '' [Conflict detected - evidence equally strong]''
                   (append_reasoning a1 '' [Conflict detected - evidence equally strong]''
                     (scale_confidence a2 0.8 (scale_confidence a1 0.8 h)))
        | _ \<Rightarrow> h))"

definition resolve_factual_disagreement ::
  "(AgentRole \<times> ref) list \<Rightarrow> heap \<Rightarrow> (AgentRole \<times> AgentRole \<times> string) list
     \<Rightarrow> (AgentRole \<times> ref) list \<times> heap" where
  "resolve_factual_disagreement agent_thoughts h conflicts =
     (agent_thoughts, fold (resolve_factual_pair agent_thoughts) conflicts h)"

definition resolve_priority_pair ::
  "(AgentRole \<times> ref) list \<Rightarrow> AgentRole \<times> AgentRole \<times> string \<Rightarrow> heap \<Rightarrow> heap" where
  "resolve_priority_pair resolved_thoughts c h =
     (case c of (role1, role2, descr) \<Rightarrow>
       (case (map_of resolved_thoughts role1, map_of resolved_thoughts role2) of
          (Some a1, Some a2) \<Rightarrow>
            let compromised_reasoning =
                  ''Priority consideration: '' @ reasoning (h ! a1) @
                  '' | Alternative perspective: '' @ reasoning (h ! a2)
            in scale_confidence a2 0.9 (scale_confidence a1 0.9
                 (set_reasoning a2 compromised_reasoning
                   (set_reasoning a1 compromised_reasoning h)))
        | _ \<Rightarrow> h))"

definition resolve_priority_disagreement ::
  "(AgentRole \<times> ref) list \<Rightarrow> heap \<Rightarrow> (AgentRole \<times> AgentRole \<times> string) list
     \<Rightarrow> (AgentRole \<times> ref) list \<times> heap" where
  "resolve_priority_disagreement agent_thoughts h conflicts =
     (agent_thoughts, fold (resolve_priority_pair agent_thoughts) conflicts h)"

text \<open>
  The methodological resolver builds a new object and stores it under both roles.  Its
  evidence is \<^verbatim>\<open>list(set(e1 + e2))\<close>: the distinct items, in an order Python does not
  fix; the model lists them in order of last occurrence.
\<close>

definition resolve_methodological_pair ::
  "nat \<Rightarrow> AgentRole \<times> AgentRole \<times> string \<Rightarrow> (AgentRole \<times> ref) list \<times> heap
     \<Rightarrow> (AgentRole \<times> ref) list \<times> heap" where
  "resolve_methodological_pair now c st =
     (case (c, st) of ((role1, role2, descr), (resolved_thoughts, h)) \<Rightarrow>
       (case (map_of resolved_thoughts role1, map_of resolved_thoughts role2) of
          (Some a1, Some a2) \<Rightarrow>
            let thought1 = h ! a1; thought2 = h ! a2;
                hybrid_reasoning =
                  ''Hybrid approach combining '' @ reasoning thought1 @ '' with '' @
                  reasoning thought2 @
                  ''. This integrated methodology leverages strengths of both approaches.'';
                hybrid_content =
                  ''Integrated solution: '' @ content thought1 @ '' + '' @ content thought2 @
                  ''. This hybrid approach addresses multiple perspectives.'';
                hybrid_thought =
                  \<lparr>agent_id = ''hybrid_'' @ role_value role1 @ ''_'' @ role_value role2,
                   agent_role = QUEEN_COORDINATOR,
                   thought_id = ''hybrid_'' @ str_of_nat now,
                   content = hybrid_content,
                   reasoning = hybrid_reasoning,
                   confidence = (confidence thought1 + confidence thought2) / 2 * 0.9,
                   timestamp = now,
                   dependencies = [],
                   evidence = remdups (evidence thought1 @ evidence thought2),
                   alternatives = []\<rparr>;
                a = length h
            in (dict_set (dict_set resolved_thoughts role1 a) role2 a, h @ [hybrid_thought])
        | _ \<Rightarrow> (resolved_thoughts, h)))"

definition resolve_methodological_conflict ::
  "nat \<Rightarrow> (AgentRole \<times> ref) list \<Rightarrow> heap \<Rightarrow> (AgentRole \<times> AgentRole \<times> string) list
     \<Rightarrow> (AgentRole \<times> ref) list \<times> heap" where
  "resolve_methodological_conflict now agent_thoughts h conflicts =
     fold (resolve_methodological_pair now) conflicts (agent_thoughts, h)"

definition resolve_strategic_pair ::
  "(AgentRole \<times> ref) list \<Rightarrow> AgentRole \<times> AgentRole \<times> string \<Rightarrow> heap \<Rightarrow> heap" where
  "resolve_strategic_pair resolved_thoughts c h =
     (case c of (role1, role2, descr) \<Rightarrow>
       (case (map_of resolved_thoughts role1, map_of resolved_thoughts role2) of
          (Some a1, Some a2) \<Rightarrow>
            let balanced_reasoning =
                  ''Strategic balance: '' @ reasoning (h ! a1) @ '' balanced with '' @
                  reasoning (h ! a2) @
                  ''. This approach considers both strategic perspectives for optimal outcome.'';
                balanced_content =
                  ''Strategic synthesis: '' @ content (h ! a1) @ '' integrated with '' @
                  content (h ! a2) @
                  ''. Provides balanced approach considering multiple strategic factors.''
            in scale_confidence a2 0.85 (set_content a2 balanced_content
                 (set_reasoning a2 balanced_reasoning
                   (scale_confidence a1 0.85 (set_content a1 balanced_content
                     (set_reasoning a1 balanced_reasoning h)))))
        | _ \<Rightarrow> h))"

definition resolve_strategic_divergence ::
  "(AgentRole \<times> ref) list \<Rightarrow> heap \<Rightarrow> (AgentRole \<times> AgentRole \<times> string) list
     \<Rightarrow> (AgentRole \<times> ref) list \<times> heap" where
  "resolve_strategic_divergence agent_thoughts h conflicts =
     (agent_thoughts, fold (resolve_strategic_pair agent_thoughts) conflicts h)"

text \<open>
  \<^verbatim>\<open>resolve_conflicts\<close> groups the conflicts by type in a \<^verbatim>\<open>defaultdict\<close>, whose keys
  come in order of first occurrence, and runs one resolver per type present.
\<close>

definition conflict_types_in_order :: "conflict list \<Rightarrow> ConflictType list" where
  "conflict_types_in_order conflicts = rev (remdups (rev (map fst conflicts)))"

definition resolve_type ::
  "nat \<Rightarrow> conflict list \<Rightarrow> ConflictType \<Rightarrow> (AgentRole \<times> ref) list \<times> heap
     \<Rightarrow> (AgentRole \<times> ref) list \<times> heap" where
  "resolve_type now conflicts conflict_type st =
     (case st of (resolved_thoughts, h) \<Rightarrow>
       let conflict_list = map snd (filter (\<lambda>c. fst c = conflict_type) conflicts)
       in if conflict_type = FACTUAL_DISAGREEMENT then
            resolve_factual_disagreement resolved_thoughts h conflict_list
          else if conflict_type = PRIORITY_DISAGREEMENT then
            resolve_priority_disagreement resolved_thoughts h conflict_list
          else if conflict_type = METHODOLOGICAL_CONFLICT then
            resolve_methodological_conflict now resolved_thoughts h conflict_list
          else if conflict_type = STRATEGIC_DIVERGENCE then
            resolve_strategic_divergence resolved_thoughts h conflict_list
          else (resolved_thoughts, h))"

definition resolve_conflicts ::
  "nat \<Rightarrow> (AgentRole \<times> ref) list \<Rightarrow> heap \<Rightarrow> conflict list
     \<Rightarrow> (AgentRole \<times> ref) list \<times> heap" where
  "resolve_conflicts now agent_thoughts h conflicts =
     (if conflicts = [] then (agent_thoughts, h)
      else fold (resolve_type now conflicts) (conflict_types_in_order conflicts)
             (agent_thoughts, h))"

section \<open>MultiAgentConsensusSystem\<close>

text \<open>
  The object state that the methods read and write.  Of each \<^verbatim>\<open>BaseAgent\<close> only the
  \<^verbatim>\<open>agent_id\<close> is read, so \<open>agents\<close> maps a role to that identifier.
\<close>

record MultiAgentConsensusSystem =
  agents :: "(AgentRole \<times> string) list"
  active_deliberations :: "(string \<times> ConsensusDeliberation) list"
  consensus_history :: "ConsensusDeliberation list"
  specialist_weights :: "(AgentRole \<times> real) list"

text \<open>\<^verbatim>\<open>d.get(k, default)\<close>, \<^verbatim>\<open>k in d\<close> and \<^verbatim>\<open>del d[k]\<close>.\<close>

definition dict_get :: "('k \<times> 'v) list \<Rightarrow> 'k \<Rightarrow> 'v \<Rightarrow> 'v" where
  "dict_get d k dflt = (case map_of d k of None \<Rightarrow> dflt | Some v \<Rightarrow> v)"

definition dict_has :: "('k \<times> 'v) list \<Rightarrow> 'k \<Rightarrow> bool" where
  "dict_has d k \<longleftrightarrow> k \<in> set (map fst d)"

definition dict_del :: "('k \<times> 'v) list \<Rightarrow> 'k \<Rightarrow> ('k \<times> 'v) list" where
  "dict_del d k = filter (\<lambda>kv. fst kv \<noteq> k) d"

subsection \<open>Names that the classes define\<close>

text \<open>
  The methods that \<^verbatim>\<open>class MultiAgentConsensusSystem\<close> defines (lines 147 to 982) and
  the attributes that \<^verbatim>\<open>__init__\<close> assigns.  The class has no base class and no
  \<^verbatim>\<open>__getattr__\<close>; reading any other name on \<^verbatim>\<open>self\<close> raises
  \<^verbatim>\<open>AttributeError\<close>.  (While \<^verbatim>\<open>__init__\<close> runs, fewer attributes are present.)
\<close>

definition MultiAgentConsensusSystem_names :: "string list" where
  "MultiAgentConsensusSystem_names =
     [''__init__'', ''_initialize_consensus_strategies'', ''_initialize_voting_methods'',
      ''_initialize_specialist_weights'', ''reach_consensus'',
      ''_analyze_consensus_landscape'', ''_calculate_agreement_score'', ''_text_similarity'',
      ''_weighted_voting_consensus'', ''_specialist_authority_consensus'',
      ''_evidence_based_consensus'', ''_collaborative_synthesis_consensus'',
      ''_iterative_refinement_consensus'', ''_conflict_resolution_consensus'',
      ''_emergent_agreement_consensus'', ''_hybrid_adaptive_consensus'',
      ''_determine_lead_specialist'', ''_synthesize_weighted_positions'',
      ''_determine_consensus_level_from_weights'', ''_synthesize_specialist_leadership'',
      ''_validate_consensus_quality'', ''_amplify_consensus_quality'',
      ''_fallback_consensus'', ''get_consensus_analytics'',
      ''agents'', ''active_deliberations'', ''consensus_history'', ''consensus_strategies'',
      ''voting_methods'', ''conflict_detector'', ''conflict_resolver'',
      ''evidence_evaluator'', ''consensus_optimizer'', ''specialist_weights'',
      ''consensus_learning'', ''executor'', ''consensus_lock'', ''deliberation_timeout'']"

text \<open>
  The fields of \<^verbatim>\<open>@dataclass ConsensusDeliberation\<close> (lines 101 to 117): first those
  without a default value, which the generated \<^verbatim>\<open>__init__\<close> requires, then the others.
\<close>

definition ConsensusDeliberation_required :: "string list" where
  "ConsensusDeliberation_required =
     [''deliberation_id'', ''task'', ''strategy'', ''voting_method'', ''phases'',
      ''proposals'', ''agent_positions'', ''evidence_registry'', ''conflict_log'',
      ''voting_record'']"

definition ConsensusDeliberation_fields :: "string list" where
  "ConsensusDeliberation_fields =
     ConsensusDeliberation_required @
     [''final_consensus'', ''deliberation_start'', ''deliberation_end'', ''quality_metrics'']"

text \<open>
  A dataclass constructor called with keyword arguments raises \<^verbatim>\<open>TypeError\<close> when a
  field without default is not among them.
\<close>

definition dataclass_init :: "string list \<Rightarrow> string list \<Rightarrow> error + unit" where
  "dataclass_init required keywords =
     (case filter (\<lambda>f. f \<notin> set keywords) required of
        [] \<Rightarrow> Inr ()
      | f # _ \<Rightarrow> Inl (TypeError (''missing required argument: '' @ f)))"

subsection \<open>Dispatch tables built by the constructor\<close>

definition consensus_strategy_table :: "(ConsensusStrategy \<times> string) list" where
  "consensus_strategy_table =
     [(WEIGHTED_VOTING, ''_weighted_voting_consensus''),
      (SPECIALIST_AUTHORITY, ''_specialist_authority_consensus''),
      (EVIDENCE_BASED, ''_evidence_based_consensus''),
      (COLLABORATIVE_SYNTHESIS, ''_collaborative_synthesis_consensus''),
      (ITERATIVE_REFINEMENT, ''_iterative_refinement_consensus''),
      (CONFLICT_RESOLUTION, ''_conflict_resolution_consensus''),
      (EMERGENT_AGREEMENT, ''_emergent_agreement_consensus''),
      (HYBRID_ADAPTIVE, ''_hybrid_adaptive_consensus'')]"

definition voting_method_table :: "(VotingMethod \<times> string) list" where
  "voting_method_table =
     [(SIMPLE_MAJORITY, ''_simple_majority_voting''),
      (SUPER_MAJORITY, ''_super_majority_voting''),
      (QUALIFIED_MAJORITY, ''_qualified_majority_voting''),
      (UNANIMOUS_VOTE, ''_unanimous_voting''),
      (WEIGHTED_CONSENSUS, ''_weighted_consensus_voting''),
      (CONDORCET, ''_condorcet_voting''),
      (BORDA_COUNT, ''_borda_count_voting''),
      (APPROVAL_VOTING, ''_approval_voting'')]"

text \<open>
  A dictionary display \<^verbatim>\<open>{K1: self.m1, K2: self.m2, ...}\<close> evaluates its entries in
  order; the first attribute that \<^verbatim>\<open>self\<close> lacks raises.
\<close>

definition bind_methods :: "('k \<times> string) list \<Rightarrow> error + ('k \<times> string) list" where
  "bind_methods table =
     (case filter (\<lambda>name. name \<notin> set MultiAgentConsensusSystem_names) (map snd table) of
        [] \<Rightarrow> Inr table
      | name # _ \<Rightarrow> Inl (AttributeError name))"

definition initialize_consensus_strategies :: "error + (ConsensusStrategy \<times> string) list" where
  "initialize_consensus_strategies = bind_methods consensus_strategy_table"

definition initialize_voting_methods :: "error + (VotingMethod \<times> string) list" where
  "initialize_voting_methods = bind_methods voting_method_table"

definition initialize_specialist_weights :: "(AgentRole \<times> real) list" where
  "initialize_specialist_weights =
     [(QUEEN_COORDINATOR, 1.0), (SECURITY_SPECIALIST, 0.95), (CODE_ARCHITECT, 0.9),
      (PERFORMANCE_OPTIMIZER, 0.85), (TESTING_QUALITY, 0.85), (INTEGRATION_EXPERT, 0.8),
      (UI_UX_DESIGNER, 0.75), (DATA_ANALYTICS, 0.75), (DOCUMENTATION_TECH_WRITER, 0.7),
      (INNOVATION_STRATEGIST, 0.7)]"

subsection \<open>Landscape analysis and strategy selection\<close>

definition text_similarity :: "string \<Rightarrow> string \<Rightarrow> real" where
  "text_similarity text1 text2 =
     (let words1 = remdups (split (lower text1));
          words2 = remdups (split (lower text2));
          intersection = length (filter (\<lambda>w. w \<in> set words2) words1);
          union = length (remdups (words1 @ words2))
      in if union > 0 then real intersection / real union else 0.0)"

fun pair_similarities :: "string list \<Rightarrow> real list" where
  "pair_similarities [] = []"
| "pair_similarities (p # ps) = map (text_similarity p) ps @ pair_similarities ps"

definition calculate_agreement_score :: "string list \<Rightarrow> real" where
  "calculate_agreement_score positions =
     (if length positions < 2 then 1.0
      else let total_similarity = sum_list (pair_similarities positions);
               comparison_count = length (pair_similarities positions)
           in if comparison_count > 0 then total_similarity / real comparison_count else 0.0)"

text \<open>
  \<^verbatim>\<open>np.mean\<close> and \<^verbatim>\<open>np.var\<close> of the confidences.  With no position both are \<^verbatim>\<open>nan\<close>,
  written \<open>None\<close>; every comparison with \<^verbatim>\<open>nan\<close> is false.
\<close>

definition np_var :: "real list \<Rightarrow> real" where
  "np_var xs = np_mean (map (\<lambda>x. (x - np_mean xs)\<^sup>2) xs)"

definition nan_lt :: "real option \<Rightarrow> real \<Rightarrow> bool" where
  "nan_lt x y = (case x of None \<Rightarrow> False | Some v \<Rightarrow> v < y)"

record ConsensusAnalysis =
  agreement_score :: real
  confidence_variance :: "real option"
  avg_confidence :: "real option"
  conflicts_detected :: nat
  evidence_quality :: "(AgentRole \<times> real) list"
  recommended_strategy :: ConsensusStrategy
  recommended_voting :: VotingMethod

text \<open>
  \<^verbatim>\<open>evaluate_evidence_quality\<close> returns a dictionary, and the selector compares that
  dictionary with a float (lines 312 and 686).  Python 3 defines no order between
  \<^verbatim>\<open>dict\<close> and \<^verbatim>\<open>float\<close>: the comparison raises \<^verbatim>\<open>TypeError\<close>, whatever the values.
\<close>

definition dict_gt_float :: "(AgentRole \<times> real) list \<Rightarrow> real \<Rightarrow> error + bool" where
  "dict_gt_float d x = Inl (TypeError ''> not supported between dict and float'')"

definition analyze_consensus_landscape :: "AGITask \<Rightarrow> thoughts \<Rightarrow> error + ConsensusAnalysis" where
  "analyze_consensus_landscape tsk agent_thoughts =
     (let positions = map (\<lambda>(role, thought). content thought) agent_thoughts;
          confidences = map (\<lambda>(role, thought). confidence thought) agent_thoughts;
          agreement = calculate_agreement_score positions;
          variance = (if confidences = [] then None else Some (np_var confidences));
          average = (if confidences = [] then None else Some (np_mean confidences));
          conflicts = detect_conflicts agent_thoughts;
          quality = evaluate_evidence_quality
                      (map (\<lambda>(role, thought). (role, evidence thought)) agent_thoughts);
          result = (\<lambda>s v.
            \<lparr>agreement_score = agreement, confidence_variance = variance,
             avg_confidence = average, conflicts_detected = length conflicts,
             evidence_quality = quality, recommended_strategy = s, recommended_voting = v\<rparr>)
      in if agreement > 0.8 \<and> length conflicts = 0 then
           Inr (result WEIGHTED_VOTING WEIGHTED_CONSENSUS)
         else
           (case dict_gt_float quality 0.7 of
              Inl e \<Rightarrow> Inl e
            | Inr quality_high \<Rightarrow>
                if quality_high then Inr (result EVIDENCE_BASED BORDA_COUNT)
                else if length conflicts > 3 then Inr (result CONFLICT_RESOLUTION SUPER_MAJORITY)
                else if nan_lt average 0.6 then Inr (result ITERATIVE_REFINEMENT APPROVAL_VOTING)
                else Inr (result HYBRID_ADAPTIVE WEIGHTED_CONSENSUS)))"

subsection \<open>Fallback consensus\<close>

definition fallback_consensus :: "nat \<Rightarrow> thoughts \<Rightarrow> AGITask \<Rightarrow> CollectiveInsight" where
  "fallback_consensus now agent_thoughts tsk =
     (let high_confidence_thoughts =
            filter (\<lambda>(role, thought). confidence thought > 0.5) agent_thoughts
      in if high_confidence_thoughts \<noteq> [] then
           \<lparr>insight_id = ''fallback_'' @ str_of_nat now,
            contributing_agents = map fst high_confidence_thoughts,
            synthesized_content =
              Text (join [CHR 0x0A, CHR 0x0A]
                      (map (\<lambda>(role, thought). content thought) high_confidence_thoughts)),
            consensus_level = PLURALITY,
            confidence_score =
              np_mean (map (\<lambda>(role, thought). confidence thought) high_confidence_thoughts),
            conflicting_views = [],
            synthesis_method = ''fallback_consensus''\<rparr>
         else
           (case agent_thoughts of
              (role, any_thought) # _ \<Rightarrow>
                \<lparr>insight_id = ''ultimate_fallback_'' @ str_of_nat now,
                 contributing_agents = [agent_role any_thought],
                 synthesized_content = Text (content any_thought),
                 consensus_level = SPECIALIST_OVERRIDE,
                 confidence_score = confidence any_thought * 0.5,
                 conflicting_views = [],
                 synthesis_method = ''ultimate_fallback''\<rparr>
            | [] \<Rightarrow>
                \<lparr>insight_id = ''emergency_'' @ str_of_nat now,
                 contributing_agents = [],
                 synthesized_content =
                   Text ''Unable to reach consensus - system emergency fallback'',
                 consensus_level = SPECIALIST_OVERRIDE,
                 confidence_score = 0.1,
                 conflicting_views = [],
                 synthesis_method = ''emergency_fallback''\<rparr>))"

subsection \<open>Weighted voting\<close>

definition synthesize_weighted_positions :: "(string \<times> real) list \<Rightarrow> synthesis" where
  "synthesize_weighted_positions weighted_positions =
     (if weighted_positions = [] then Text ''No positions available for synthesis.''
      else Weighted_Synthesis
             (filter (\<lambda>(position, weight). weight > 0.1)
                (sort_key (\<lambda>(position, weight). - weight) weighted_positions)))"

definition determine_consensus_level_from_weights ::
  "(AgentRole \<times> real) list \<Rightarrow> nat \<Rightarrow> ConsensusLevel" where
  "determine_consensus_level_from_weights weights total_agents =
     (case map snd weights of
        [] \<Rightarrow> PLURALITY
      | w # ws \<Rightarrow>
          let max_weight = fold max ws w;
              total_weight = sum_list (w # ws);
              dominance_ratio = (if total_weight > 0 then max_weight / total_weight else 0)
          in if dominance_ratio > 0.7 then SPECIALIST_OVERRIDE
             else if dominance_ratio > 0.5 then MAJORITY_SUPER
             else if real (length weights) \<ge> real total_agents * 0.7 then MAJORITY_STRONG
             else if real (length weights) \<ge> real total_agents * 0.6 then MAJORITY_SIMPLE
             else PLURALITY)"

definition combined_weights ::
  "MultiAgentConsensusSystem \<Rightarrow> (AgentRole \<times> real) list \<Rightarrow> thoughts
     \<Rightarrow> (AgentRole \<times> real) list" where
  "combined_weights sys evidence_scores agent_thoughts =
     fold (\<lambda>(role, thought) voting_weights.
             let specialist_weight = dict_get (specialist_weights sys) role 0.5;
                 evidence_weight = dict_get evidence_scores role 0.5;
                 confidence_weight = confidence thought
             in dict_set voting_weights role
                  (specialist_weight * 0.4 + evidence_weight * 0.3 + confidence_weight * 0.3))
          agent_thoughts []"

definition weighted_voting_consensus ::
  "MultiAgentConsensusSystem \<Rightarrow> nat \<Rightarrow> ConsensusDeliberation \<Rightarrow> thoughts
     \<Rightarrow> CollectiveInsight \<times> ConsensusDeliberation" where
  "weighted_voting_consensus sys now deliberation agent_thoughts =
     (let d = deliberation\<lparr>phases := phases deliberation @ [EVIDENCE_PRESENTATION]\<rparr>;
          evidence_scores = evaluate_evidence_quality (evidence_registry d);
          raw_weights = combined_weights sys evidence_scores agent_thoughts;
          total_weight = sum_list (map snd raw_weights);
          voting_weights =
            (if total_weight > 0
             then map (\<lambda>(role, weight). (role, weight / total_weight)) raw_weights
             else raw_weights);
          weighted_positions =
            concat (map (\<lambda>(role, thought).
                           let weight = dict_get voting_weights role 0
                           in if weight > 0 then [(content thought, weight)] else [])
                        agent_thoughts)
      in if weighted_positions \<noteq> [] then
           (\<lparr>insight_id = ''weighted_voting_'' @ str_of_nat now,
             contributing_agents = map fst agent_thoughts,
             synthesized_content = synthesize_weighted_positions weighted_positions,
             consensus_level =
               determine_consensus_level_from_weights voting_weights (length agent_thoughts),
             confidence_score =
               min 1.0 (np_mean (map (\<lambda>(role, thought). confidence thought) agent_thoughts)
                        * 1.1),
             conflicting_views = [],
             synthesis_method = ''weighted_voting''\<rparr>, d)
         else (fallback_consensus now agent_thoughts (task d), d))"

subsection \<open>Specialist authority\<close>

definition specialist_keywords :: "(AgentRole \<times> string list) list" where
  "specialist_keywords =
     [(SECURITY_SPECIALIST, [''security'', ''auth'', ''encryption'', ''vulnerability'']),
      (CODE_ARCHITECT, [''architecture'', ''structure'', ''design'', ''framework'']),
      (PERFORMANCE_OPTIMIZER, [''performance'', ''optimization'', ''speed'', ''efficiency'']),
      (TESTING_QUALITY, [''test'', ''quality'', ''validation'', ''verification'']),
      (INTEGRATION_EXPERT, [''integration'', ''api'', ''connect'', ''system'']),
      (UI_UX_DESIGNER, [''ui'', ''ux'', ''interface'', ''user'']),
      (DATA_ANALYTICS, [''data'', ''analytics'', ''metrics'', ''analysis''])]"

text \<open>\<^verbatim>\<open>max(d, key=d.get)\<close>: the first key, in dictionary order, whose value is largest.\<close>

definition first_max_key :: "AgentRole \<times> real \<Rightarrow> (AgentRole \<times> real) list \<Rightarrow> AgentRole" where
  "first_max_key kv kvs =
     fst (fold (\<lambda>(k, v) (best_k, best_v). if v > best_v then (k, v) else (best_k, best_v))
            kvs kv)"

definition determine_lead_specialist :: "AGITask \<Rightarrow> thoughts \<Rightarrow> AgentRole" where
  "determine_lead_specialist tsk agent_thoughts =
     (let task_content = lower (description tsk);
          specialist_scores =
            concat (map (\<lambda>(role, keywords).
                           case map_of agent_thoughts role of
                             None \<Rightarrow> []
                           | Some thought \<Rightarrow>
                               [(role,
                                 real (length (filter (\<lambda>keyword. str_in keyword task_content)
                                                 keywords))
                                 * confidence thought)])
                        specialist_keywords)
      in case specialist_scores of
           [] \<Rightarrow> QUEEN_COORDINATOR
         | kv # kvs \<Rightarrow> first_max_key kv kvs)"

definition specialist_authority_consensus ::
  "MultiAgentConsensusSystem \<Rightarrow> nat \<Rightarrow> ConsensusDeliberation \<Rightarrow> thoughts
     \<Rightarrow> CollectiveInsight \<times> ConsensusDeliberation" where
  "specialist_authority_consensus sys now deliberation agent_thoughts =
     (let lead_specialist = determine_lead_specialist (task deliberation) agent_thoughts
      in case map_of agent_thoughts lead_specialist of
           Some specialist_thought \<Rightarrow>
             let supporting_agents =
                   filter (\<lambda>(role, thought). role \<noteq> lead_specialist \<and> confidence thought > 0.6)
                     agent_thoughts
             in (\<lparr>insight_id = ''specialist_authority_'' @ str_of_nat now,
                  contributing_agents = lead_specialist # map fst supporting_agents,
                  synthesized_content =
                    Specialist_Leadership lead_specialist (content specialist_thought)
                      (reasoning specialist_thought)
                      (map (\<lambda>(role, thought). (role, content thought)) supporting_agents),
                  consensus_level = SPECIALIST_OVERRIDE,
                  confidence_score = confidence specialist_thought * 0.9,
                  conflicting_views =
                    map (\<lambda>(role, thought). (role, content thought))
                      (filter (\<lambda>(role, thought).
                                 role \<noteq> lead_specialist \<and> confidence thought < 0.4)
                         agent_thoughts),
                  synthesis_method = ''specialist_authority''\<rparr>, deliberation)
         | None \<Rightarrow> weighted_voting_consensus sys now deliberation agent_thoughts)"

subsection \<open>Strategies that call a method no class defines\<close>

text \<open>
  Six strategies call helper methods on \<^verbatim>\<open>self\<close> that the repository defines nowhere.
  Python looks the attribute up when the call is reached and raises
  \<^verbatim>\<open>AttributeError\<close> there; what the source writes after such a call is never run and
  is not modelled.  \<open>undefined_helpers\<close> lists the names in question.
\<close>

definition undefined_helpers :: "string list" where
  "undefined_helpers =
     [''_synthesize_evidence_based_positions'', ''_identify_common_themes'',
      ''_create_refinement_proposals'', ''_build_consensus_from_resolved_conflicts'',
      ''_build_agreement_network'', ''_update_thoughts_from_consensus'']"

text \<open>
  Evidence-based consensus: with at least one qualified agent, line 492 calls
  \<^verbatim>\<open>self._synthesize_evidence_based_positions\<close>; with none, weighted voting runs.
\<close>

definition evidence_based_consensus ::
  "MultiAgentConsensusSystem \<Rightarrow> nat \<Rightarrow> ConsensusDeliberation \<Rightarrow> thoughts
     \<Rightarrow> (error + CollectiveInsight) \<times> ConsensusDeliberation" where
  "evidence_based_consensus sys now deliberation agent_thoughts =
     (let evidence_scores = evaluate_evidence_quality (evidence_registry deliberation);
          evidence_qualified_agents =
            filter (\<lambda>(role, thought). dict_get evidence_scores role 0 > 0.6) agent_thoughts
      in if evidence_qualified_agents \<noteq> [] then
           (Inl (AttributeError ''_synthesize_evidence_based_positions''), deliberation)
         else
           (case weighted_voting_consensus sys now deliberation agent_thoughts of
              (insight, d) \<Rightarrow> (Inr insight, d)))"

text \<open>Line 518 calls \<^verbatim>\<open>self._identify_common_themes\<close> first of all.\<close>

definition collaborative_synthesis_consensus ::
  "ConsensusDeliberation \<Rightarrow> thoughts \<Rightarrow> error + CollectiveInsight" where
  "collaborative_synthesis_consensus deliberation agent_thoughts =
     Inl (AttributeError ''_identify_common_themes'')"

text \<open>
  The loop of line 557 runs at least once (\<^verbatim>\<open>max_iterations = 3\<close>) and its first
  statement calls \<^verbatim>\<open>self._create_refinement_proposals\<close>.
\<close>

definition iterative_refinement_consensus ::
  "ConsensusDeliberation \<Rightarrow> thoughts \<Rightarrow> error + CollectiveInsight" where
  "iterative_refinement_consensus deliberation agent_thoughts =
     Inl (AttributeError ''_create_refinement_proposals'')"

text \<open>Line 624 calls \<^verbatim>\<open>self._build_agreement_network\<close> first of all.\<close>

definition emergent_agreement_consensus ::
  "ConsensusDeliberation \<Rightarrow> thoughts \<Rightarrow> error + CollectiveInsight" where
  "emergent_agreement_consensus deliberation agent_thoughts =
     Inl (AttributeError ''_build_agreement_network'')"

text \<open>
  Conflict resolution detects the conflicts, logs them, lets the resolver mutate the
  positions, and then calls \<^verbatim>\<open>self._build_consensus_from_resolved_conflicts\<close> (line
  609) or collaborative synthesis.  The mutated heap outlives the exception.
\<close>

definition conflict_resolution_consensus ::
  "nat \<Rightarrow> ConsensusDeliberation \<Rightarrow> heap \<Rightarrow> (AgentRole \<times> ref) list
     \<Rightarrow> (error + CollectiveInsight) \<times> ConsensusDeliberation \<times> heap" where
  "conflict_resolution_consensus now deliberation h agent_thoughts =
     (let conflicts = detect_conflicts (deref h agent_thoughts);
          d = deliberation\<lparr>conflict_log := conflicts\<rparr>
      in if conflicts \<noteq> [] then
           (case resolve_conflicts now agent_thoughts h conflicts of
              (resolved_thoughts, h') \<Rightarrow>
                if resolved_thoughts \<noteq> [] then
                  (Inl (AttributeError ''_build_consensus_from_resolved_conflicts''), d, h')
                else (collaborative_synthesis_consensus d (deref h' agent_thoughts), d, h'))
         else (collaborative_synthesis_consensus d (deref h agent_thoughts), d, h))"

text \<open>
  Hybrid adaptive: the landscape analysis, then conflict resolution when conflicts were
  counted, then the comparison \<^verbatim>\<open>consensus_analysis['evidence_quality'] > 0.6\<close> of line
  686, which compares a dictionary with a float.  \<open>hybrid_finish\<close> is what follows that
  comparison: evidence-based consensus, collaborative synthesis, and weighted voting at
  the end, each tagged in the synthesis method.
\<close>

definition hybrid_weighted_voting ::
  "MultiAgentConsensusSystem \<Rightarrow> nat \<Rightarrow> string list \<Rightarrow> ConsensusDeliberation \<Rightarrow> thoughts
     \<Rightarrow> (error + CollectiveInsight) \<times> ConsensusDeliberation" where
  "hybrid_weighted_voting sys now applied_strategies deliberation current_thoughts =
     (case weighted_voting_consensus sys now deliberation current_thoughts of
        (final_result, d) \<Rightarrow>
          (Inr (final_result\<lparr>synthesis_method :=
                  ''hybrid_adaptive_('' @
                  join ''+'' (applied_strategies @ [''weighted_voting'']) @ '')''\<rparr>),
           d))"

definition hybrid_collaborative ::
  "MultiAgentConsensusSystem \<Rightarrow> nat \<Rightarrow> real option \<Rightarrow> string list \<Rightarrow> ConsensusDeliberation
     \<Rightarrow> thoughts \<Rightarrow> (error + CollectiveInsight) \<times> ConsensusDeliberation" where
  "hybrid_collaborative sys now average applied_strategies deliberation current_thoughts =
     (if nan_lt average 0.6 then
        (case collaborative_synthesis_consensus deliberation current_thoughts of
           Inl e \<Rightarrow> (Inl e, deliberation)
         | Inr collab_result \<Rightarrow>
             if confidence_score collab_result > 0.7 then (Inr collab_result, deliberation)
             else hybrid_weighted_voting sys now
                    (applied_strategies @ [''collaborative_synthesis''])
                    deliberation current_thoughts)
      else hybrid_weighted_voting sys now applied_strategies deliberation current_thoughts)"

definition hybrid_finish ::
  "MultiAgentConsensusSystem \<Rightarrow> nat \<Rightarrow> real option \<Rightarrow> string list \<Rightarrow> bool
     \<Rightarrow> ConsensusDeliberation \<Rightarrow> thoughts
     \<Rightarrow> (error + CollectiveInsight) \<times> ConsensusDeliberation" where
  "hybrid_finish sys now average applied_strategies quality_ok deliberation current_thoughts =
     (if quality_ok then
        (case evidence_based_consensus sys now deliberation current_thoughts of
           (Inl e, d) \<Rightarrow> (Inl e, d)
         | (Inr evidence_result, d) \<Rightarrow>
             if confidence_score evidence_result > 0.8 then (Inr evidence_result, d)
             else hybrid_collaborative sys now average
                    (applied_strategies @ [''evidence_based'']) d current_thoughts)
      else hybrid_collaborative sys now average applied_strategies deliberation
             current_thoughts)"

definition hybrid_adaptive_consensus ::
  "MultiAgentConsensusSystem \<Rightarrow> nat \<Rightarrow> ConsensusDeliberation \<Rightarrow> heap
     \<Rightarrow> (AgentRole \<times> ref) list
     \<Rightarrow> (error + CollectiveInsight) \<times> ConsensusDeliberation \<times> heap" where
  "hybrid_adaptive_consensus sys now deliberation h agent_thoughts =
     (case analyze_consensus_landscape (task deliberation) (deref h agent_thoughts) of
        Inl e \<Rightarrow> (Inl e, deliberation, h)
      | Inr consensus_analysis \<Rightarrow>
          (case (if conflicts_detected consensus_analysis > 0 then
                   (case conflict_resolution_consensus now deliberation h agent_thoughts of
                      (Inl e, d, h') \<Rightarrow> (Inl e, d, h')
                    | (Inr conflict_result, d, h') \<Rightarrow>
                        if confidence_score conflict_result > 0.7
                        then (Inl (AttributeError ''_update_thoughts_from_consensus''), d, h')
                        else (Inr [''conflict_resolution''], d, h'))
                 else (Inr [], deliberation, h)) of
             (Inl e, d, h') \<Rightarrow> (Inl e, d, h')
           | (Inr applied_strategies, d, h') \<Rightarrow>
               (case dict_gt_float (evidence_quality consensus_analysis) 0.6 of
                  Inl e \<Rightarrow> (Inl e, d, h')
                | Inr quality_ok \<Rightarrow>
                    (case hybrid_finish sys now (avg_confidence consensus_analysis)
                            applied_strategies quality_ok d (deref h' agent_thoughts) of
                       (r, d') \<Rightarrow> (r, d', h')))))"

text \<open>The dispatch of \<^verbatim>\<open>self.consensus_strategies[strategy]\<close>.\<close>

fun consensus_func ::
  "ConsensusStrategy \<Rightarrow> MultiAgentConsensusSystem \<Rightarrow> nat \<Rightarrow> ConsensusDeliberation \<Rightarrow> heap
     \<Rightarrow> (AgentRole \<times> ref) list
     \<Rightarrow> (error + CollectiveInsight) \<times> ConsensusDeliberation \<times> heap" where
  "consensus_func WEIGHTED_VOTING sys now d h refs =
     (case weighted_voting_consensus sys now d (deref h refs) of
        (insight, d') \<Rightarrow> (Inr insight, d', h))"
| "consensus_func SPECIALIST_AUTHORITY sys now d h refs =
     (case specialist_authority_consensus sys now d (deref h refs) of
        (insight, d') \<Rightarrow> (Inr insight, d', h))"
| "consensus_func EVIDENCE_BASED sys now d h refs =
     (case evidence_based_consensus sys now d (deref h refs) of (r, d') \<Rightarrow> (r, d', h))"
| "consensus_func COLLABORATIVE_SYNTHESIS sys now d h refs =
     (collaborative_synthesis_consensus d (deref h refs), d, h)"
| "consensus_func ITERATIVE_REFINEMENT sys now d h refs =
     (iterative_refinement_consensus d (deref h refs), d, h)"
| "consensus_func CONFLICT_RESOLUTION sys now d h refs =
     conflict_resolution_consensus now d h refs"
| "consensus_func EMERGENT_AGREEMENT sys now d h refs =
     (emergent_agreement_consensus d (deref h refs), d, h)"
| "consensus_func HYBRID_ADAPTIVE sys now d h refs =
     hybrid_adaptive_consensus sys now d h refs"

subsection \<open>Quality validation and amplification\<close>

text \<open>
  The first statement of \<^verbatim>\<open>_validate_consensus_quality\<close> (line 820) divides by
  \<^verbatim>\<open>len(deliberation.participating_agents)\<close>.  \<^verbatim>\<open>ConsensusDeliberation\<close> has no such
  attribute, so the access raises before any score is computed.
  \<^verbatim>\<open>learn_from_deliberation\<close> returns at once when there is no final consensus and reads
  the same attribute otherwise (line 1375), before it stores anything.
\<close>

definition validate_consensus_quality ::
  "CollectiveInsight \<Rightarrow> ConsensusDeliberation \<Rightarrow> error + (string \<times> real) list" where
  "validate_consensus_quality consensus deliberation =
     Inl (AttributeError ''participating_agents'')"

definition learn_from_deliberation :: "ConsensusDeliberation \<Rightarrow> error + unit" where
  "learn_from_deliberation deliberation =
     (case final_consensus deliberation of
        None \<Rightarrow> Inr ()
      | Some c \<Rightarrow> Inl (AttributeError ''participating_agents''))"

text \<open>
  The amplifier builds one validation opinion, of confidence \<open>0.8\<close>, for each contributing
  role that has an agent and a recorded position; only the confidences are read.
\<close>

definition validating_roles ::
  "MultiAgentConsensusSystem \<Rightarrow> CollectiveInsight \<Rightarrow> ConsensusDeliberation
     \<Rightarrow> AgentRole list" where
  "validating_roles sys consensus deliberation =
     filter (\<lambda>role. dict_has (agents sys) role \<and>
                      dict_has (agent_positions deliberation) role)
       (contributing_agents consensus)"

definition amplify_consensus_quality ::
  "MultiAgentConsensusSystem \<Rightarrow> CollectiveInsight \<Rightarrow> ConsensusDeliberation
     \<Rightarrow> CollectiveInsight" where
  "amplify_consensus_quality sys consensus deliberation =
     (let specialist_validations =
            map (\<lambda>role. (role, 0.8 :: real)) (validating_roles sys consensus deliberation)
      in if specialist_validations \<noteq> [] then
           let validation_confidence = np_mean (map snd specialist_validations);
               amplified_confidence =
                 min 1.0 (confidence_score consensus * (1 + validation_confidence * 0.1))
           in \<lparr>insight_id = ''amplified_'' @ insight_id consensus,
               contributing_agents = contributing_agents consensus,
               synthesized_content = synthesized_content consensus,
               consensus_level = consensus_level consensus,
               confidence_score = amplified_confidence,
               conflicting_views = [],
               synthesis_method = synthesis_method consensus @ ''_amplified''\<rparr>
         else consensus)"

subsection \<open>The orchestrator\<close>

text \<open>
  The \<^verbatim>\<open>try\<close> block of \<^verbatim>\<open>reach_consensus\<close> (lines 247 to 272).  The last component of
  the result tells whether the deliberation was appended to the history before the block
  ended.
\<close>

definition try_block ::
  "MultiAgentConsensusSystem \<Rightarrow> nat \<Rightarrow> ConsensusDeliberation \<Rightarrow> heap
     \<Rightarrow> (AgentRole \<times> ref) list
     \<Rightarrow> (error + CollectiveInsight) \<times> MultiAgentConsensusSystem \<times> ConsensusDeliberation
        \<times> heap \<times> bool" where
  "try_block sys now deliberation h agent_thoughts =
     (case consensus_func (strategy deliberation) sys now deliberation h agent_thoughts of
        (Inl e, d, h') \<Rightarrow> (Inl e, sys, d, h', False)
      | (Inr consensus_result, d, h') \<Rightarrow>
          (case validate_consensus_quality consensus_result d of
             Inl e \<Rightarrow> (Inl e, sys, d, h', False)
           | Inr consensus_quality \<Rightarrow>
               let final_result =
                     (if dict_get consensus_quality ''overall_score'' 0 < 0.8
                      then amplify_consensus_quality sys consensus_result d
                      else consensus_result);
                   d2 = d\<lparr>final_consensus := Some final_result,
                          deliberation_end := Some now,
                          quality_metrics := consensus_quality\<rparr>;
                   sys2 = sys\<lparr>consensus_history := consensus_history sys @ [d2]\<rparr>
               in (case learn_from_deliberation d2 of
                     Inl e \<Rightarrow> (Inl e, sys2, d2, h', True)
                   | Inr u \<Rightarrow> (Inr final_result, sys2, d2, h', True))))"

text \<open>
  From the registration of the session to the \<^verbatim>\<open>finally\<close> clause.  The \<^verbatim>\<open>except\<close>
  clause stamps the end time on the deliberation object, which is the last history
  entry when the block had appended it, and returns the fallback consensus; it does not
  append.  The \<^verbatim>\<open>finally\<close> clause removes the session from the active set.
\<close>

definition deliberate ::
  "MultiAgentConsensusSystem \<Rightarrow> nat \<Rightarrow> AGITask \<Rightarrow> ConsensusDeliberation \<Rightarrow> heap
     \<Rightarrow> (AgentRole \<times> ref) list
     \<Rightarrow> (error + CollectiveInsight) \<times> MultiAgentConsensusSystem \<times> heap" where
  "deliberate sys now tsk deliberation h agent_thoughts =
     (let registered =
            sys\<lparr>active_deliberations :=
                  dict_set (active_deliberations sys) (deliberation_id deliberation)
                    deliberation\<rparr>;
          cleanup = (\<lambda>s. s\<lparr>active_deliberations :=
                              dict_del (active_deliberations s) (deliberation_id deliberation)\<rparr>)
      in case try_block registered now deliberation h agent_thoughts of
           (Inr consensus_result, sys', d, h', appended) \<Rightarrow>
             (Inr consensus_result, cleanup sys', h')
         | (Inl e, sys', d, h', appended) \<Rightarrow>
             let stamped =
                   (if appended
                    then sys'\<lparr>consensus_history :=
                                butlast (consensus_history sys') @
                                [d\<lparr>deliberation_end := Some now\<rparr>]\<rparr>
                    else sys')
             in (Inr (fallback_consensus now (deref h' agent_thoughts) tsk),
                 cleanup stamped, h'))"

text \<open>
  \<^verbatim>\<open>reach_consensus\<close>.  The landscape analysis and the construction of the
  \<^verbatim>\<open>ConsensusDeliberation\<close> come before the \<^verbatim>\<open>try\<close> statement, so an exception of
  either leaves the method.  The constructor call of lines 233 to 243 passes nine keyword
  arguments and no \<^verbatim>\<open>voting_record\<close>.
\<close>

definition reach_consensus_keywords :: "string list" where
  "reach_consensus_keywords =
     [''deliberation_id'', ''task'', ''strategy'', ''voting_method'', ''phases'',
      ''proposals'', ''agent_positions'', ''evidence_registry'', ''conflict_log'']"

definition reach_consensus ::
  "MultiAgentConsensusSystem \<Rightarrow> nat \<Rightarrow> AGITask \<Rightarrow> heap \<Rightarrow> (AgentRole \<times> ref) list
     \<Rightarrow> ConsensusStrategy option \<Rightarrow> VotingMethod option
     \<Rightarrow> (error + CollectiveInsight) \<times> MultiAgentConsensusSystem \<times> heap" where
  "reach_consensus sys now tsk h agent_thoughts strategy_arg voting_method_arg =
     (case analyze_consensus_landscape tsk (deref h agent_thoughts) of
        Inl e \<Rightarrow> (Inl e, sys, h)
      | Inr consensus_analysis \<Rightarrow>
          (case dataclass_init ConsensusDeliberation_required reach_consensus_keywords of
             Inl e \<Rightarrow> (Inl e, sys, h)
           | Inr u \<Rightarrow>
               deliberate sys now tsk
                 \<lparr>deliberation_id = ''deliberation_'' @ task_id tsk @ ''_'' @ str_of_nat now,
                  task = tsk,
                  strategy = (case strategy_arg of
                                Some s \<Rightarrow> s
                              | None \<Rightarrow> recommended_strategy consensus_analysis),
                  voting_method = (case voting_method_arg of
                                     Some v \<Rightarrow> v
                                   | None \<Rightarrow> recommended_voting consensus_analysis),
                  phases = [INITIAL_POSITIONS],
                  proposals = [],
                  agent_positions =
                    map (\<lambda>(role, thought). (role, content thought)) (deref h agent_thoughts),
                  evidence_registry =
                    map (\<lambda>(role, thought). (role, evidence thought)) (deref h agent_thoughts),
                  conflict_log = [],
                  voting_record = [],
                  final_consensus = None,
                  deliberation_start = now,
                  deliberation_end = None,
                  quality_metrics = []\<rparr>
                 h agent_thoughts))"

section \<open>The specification's formulas and example inputs\<close>

text \<open>
  The per-item evidence score as the specification words it: base \<open>0.5\<close>, plus
  \<open>min(1, length/100) \<times> 0.2\<close>, plus \<open>0.1\<close> per specificity keyword found, capped at \<open>1.0\<close>.
\<close>

definition spec_item_score :: "string \<Rightarrow> real" where
  "spec_item_score item =
     min 1.0 (0.5 + min 1 (real (length item) / 100) * 0.2
              + 0.1 * real (specificity_count item))"

text \<open>
  Example inputs.  \<open>position\<close> is an \<^verbatim>\<open>AgentThought\<close> of the given role, content,
  reasoning, confidence and evidence.  \<open>example_deliberation\<close> is a deliberation as a
  caller can build it, with every required field given.
\<close>

definition position ::
  "AgentRole \<Rightarrow> string \<Rightarrow> string \<Rightarrow> real \<Rightarrow> string list \<Rightarrow> AgentThought" where
  "position role text why conf items =
     \<lparr>agent_id = role_value role @ ''_1'', agent_role = role,
      thought_id = role_value role @ ''_thought_1'', content = text, reasoning = why,
      confidence = conf, timestamp = 0, dependencies = [], evidence = items,
      alternatives = []\<rparr>"

text \<open>
  The scenario of the specification: P1 says "implement X" with confidence \<open>0.9\<close> and two
  evidence items, P2 says "avoid X" with confidence \<open>0.6\<close> and no evidence.  P1 is held
  by the coordinator role and P2 by the architect role, each its own object.
\<close>

definition scenario_heap :: "string \<Rightarrow> string \<Rightarrow> heap" where
  "scenario_heap why1 why2 =
     [position QUEEN_COORDINATOR ''implement X'' why1 0.9
        [''benchmark data'', ''latency metric''],
      position CODE_ARCHITECT ''avoid X'' why2 0.6 []]"

definition scenario_thoughts :: "(AgentRole \<times> ref) list" where
  "scenario_thoughts = [(QUEEN_COORDINATOR, 0), (CODE_ARCHITECT, 1)]"

definition example_heap :: heap where
  "example_heap = scenario_heap ''X is needed'' ''X is risky''"

definition example_task :: AGITask where
  "example_task =
     \<lparr>task_id = ''task_1'', description = ''Decide on X'', priority = HIGH,
      required_agents = [QUEEN_COORDINATOR, CODE_ARCHITECT], task_context = [],
      created_at = 0, deadline = None, task_dependencies = [], quality_threshold = 0.8\<rparr>"

definition example_system :: MultiAgentConsensusSystem where
  "example_system =
     \<lparr>agents = [(QUEEN_COORDINATOR, ''queen_1''), (CODE_ARCHITECT, ''architect_1'')],
      active_deliberations = [], consensus_history = [],
      specialist_weights = initialize_specialist_weights\<rparr>"

definition example_deliberation :: ConsensusDeliberation where
  "example_deliberation =
     \<lparr>deliberation_id = ''deliberation_task_1_0'', task = example_task,
      strategy = WEIGHTED_VOTING, voting_method = WEIGHTED_CONSENSUS,
      phases = [INITIAL_POSITIONS], proposals = [],
      agent_positions = [(QUEEN_COORDINATOR, ''implement X''), (CODE_ARCHITECT, ''avoid X'')],
      evidence_registry =
        [(QUEEN_COORDINATOR, [''benchmark data'', ''latency metric'']), (CODE_ARCHITECT, [])],
      conflict_log = [], voting_record = [], final_consensus = None,
      deliberation_start = 0, deliberation_end = None, quality_metrics = []\<rparr>"

definition example_insight :: CollectiveInsight where
  "example_insight =
     \<lparr>insight_id = ''weighted_voting_0'', contributing_agents = [QUEEN_COORDINATOR],
      synthesized_content = Weighted_Synthesis [(''implement X'', 1)],
      consensus_level = SPECIALIST_OVERRIDE, confidence_score = 0.5,
      conflicting_views = [], synthesis_method = ''weighted_voting''\<rparr>"

text \<open>
  Further example inputs: a single position; two positions without evidence, of equal
  evidence strength; a dictionary whose two roles hold one and the same object; and a
  position map whose one entry is filed under a key other than the role it names.
\<close>

definition single_heap :: heap where
  "single_heap = [position QUEEN_COORDINATOR ''implement X'' ''X is needed'' 0.9 []]"

definition single_thoughts :: "(AgentRole \<times> ref) list" where
  "single_thoughts = [(QUEEN_COORDINATOR, 0)]"

definition tie_heap :: heap where
  "tie_heap =
     [position QUEEN_COORDINATOR ''yes'' ''in favour'' 0.5 [],
      position CODE_ARCHITECT ''no'' ''against'' 0.5 []]"

definition shared_thoughts :: "(AgentRole \<times> ref) list" where
  "shared_thoughts = [(QUEEN_COORDINATOR, 0), (CODE_ARCHITECT, 0)]"

definition misfiled_thoughts :: "real \<Rightarrow> thoughts" where
  "misfiled_thoughts conf =
     [(SECURITY_SPECIALIST,
       position QUEEN_COORDINATOR ''implement X'' ''X is needed'' conf [])]"

text \<open>Predicates of the claims: confidences in \<open>[0, 1]\<close>, and positions stored under their own role.\<close>

definition unit_confidences :: "thoughts \<Rightarrow> bool" where
  "unit_confidences agent_thoughts =
     list_all (\<lambda>(role, thought). 0 \<le> confidence thought \<and> confidence thought \<le> 1)
       agent_thoughts"

definition unit_confidence_score :: "CollectiveInsight \<Rightarrow> bool" where
  "unit_confidence_score insight \<longleftrightarrow>
     0 \<le> confidence_score insight \<and> confidence_score insight \<le> 1"

definition own_roles :: "thoughts \<Rightarrow> bool" where
  "own_roles agent_thoughts =
     list_all (\<lambda>(role, thought). agent_role thought = role) agent_thoughts"

section \<open>Evidence scores\<close>

lemma evaluate_single_evidence_nonempty:
  "item \<noteq> [] \<Longrightarrow> evaluate_single_evidence item = spec_item_score item"
  by (simp add: evaluate_single_evidence_def spec_item_score_def Let_def)

lemma evaluate_single_evidence_mono:
  assumes "length e1 = length e2" and "specificity_count e1 \<le> specificity_count e2"
  shows "evaluate_single_evidence e1 \<le> evaluate_single_evidence e2"
proof (cases "e1 = []")
  case True
  with assms(1) have "e2 = []" by simp
  with True show ?thesis by simp
next
  case False
  with assms(1) have ne: "e2 \<noteq> []" by auto
  have "real (specificity_count e1) * 0.1 \<le> real (specificity_count e2) * 0.1"
    using assms(2) by simp
  then show ?thesis
    using False ne assms(1)
    by (simp add: evaluate_single_evidence_def Let_def min_def)
qed

lemma map_of_evaluate_evidence_quality:
  "map_of (evaluate_evidence_quality registry) role
     = map_option evidence_score (map_of registry role)"
  by (induction registry) (auto simp: evaluate_evidence_quality_def)

text \<open>
  C6, as stated, fails on an evidence list that holds an empty string:
  \<^verbatim>\<open>_evaluate_single_evidence\<close> returns \<open>0.0\<close> for the empty item (the guard of line
  1292), where the formula of the claim gives \<open>0.5\<close>.  The participant whose evidence is
  \<^verbatim>\<open>[""]\<close> scores \<open>0.0\<close>, not \<open>0.5\<close>.
\<close>

theorem evidence_score_counterexample:
  "evidence_score [''''] \<noteq> np_mean (map spec_item_score [''''])"
  by (simp add: evidence_score_def np_mean_def evaluate_single_evidence_def
        spec_item_score_def specificity_count_def specificity_keywords_def lower_def)

text \<open>
  C6, amended: the score of an empty evidence list is exactly \<open>0.0\<close>; the score of a
  non-empty list is the mean of the item scores; an empty item scores \<open>0.0\<close> and a
  non-empty item scores the capped formula of the specification; among items of equal
  length the item score does not decrease when the number of keyword hits grows; and the
  score of a participant is a function of that participant's evidence list alone.
\<close>

theorem evidence_score_amended:
  "evidence_score [] = 0
   \<and> (items \<noteq> [] \<longrightarrow> evidence_score items = np_mean (map evaluate_single_evidence items))
   \<and> evaluate_single_evidence [] = 0
   \<and> (item \<noteq> [] \<longrightarrow> evaluate_single_evidence item = spec_item_score item)
   \<and> (length e1 = length e2 \<and> specificity_count e1 \<le> specificity_count e2
        \<longrightarrow> evaluate_single_evidence e1 \<le> evaluate_single_evidence e2)
   \<and> map_of (evaluate_evidence_quality registry) role
        = map_option evidence_score (map_of registry role)"
  using evaluate_single_evidence_nonempty [of item] evaluate_single_evidence_mono [of e1 e2]
    map_of_evaluate_evidence_quality [of registry role]
  by (simp add: evidence_score_def evaluate_single_evidence_def)

theorem evidence_score_amended_witness:
  "[''benchmark data'', ''''] \<noteq> []
   \<and> evidence_score [''benchmark data'', ''''] = 0.314
   \<and> ''benchmark data'' \<noteq> []
   \<and> evaluate_single_evidence ''benchmark data'' = 0.628
   \<and> length ''some text'' = length ''some data''
   \<and> specificity_count ''some text'' \<le> specificity_count ''some data''
   \<and> evaluate_single_evidence ''some text'' \<le> evaluate_single_evidence ''some data''
   \<and> map_of (evaluate_evidence_quality [(QUEEN_COORDINATOR, [''benchmark data'', ''''])])
        QUEEN_COORDINATOR = Some 0.314"
  using evidence_score_amended [of "[''benchmark data'', '''']" "''benchmark data''"
      "''some text''" "''some data''" "[(QUEEN_COORDINATOR, [''benchmark data'', ''''])]"
      QUEEN_COORDINATOR]
  by (simp add: np_mean_def spec_item_score_def specificity_count_def specificity_keywords_def
        lower_def lower_char_def evaluate_single_evidence_def)

section \<open>The voting dispatch table\<close>

text \<open>
  C10 at the constructor: \<^verbatim>\<open>_initialize_voting_methods\<close> reads
  \<^verbatim>\<open>self._simple_majority_voting\<close> first and raises \<^verbatim>\<open>AttributeError\<close>; none of the
  eight names of the table is defined by the class, while all eight strategy names are.
\<close>

theorem initialize_voting_methods_raises:
  "initialize_voting_methods = Inl (AttributeError ''_simple_majority_voting'')
   \<and> filter (\<lambda>(m, name). name \<in> set MultiAgentConsensusSystem_names) voting_method_table = []
   \<and> initialize_consensus_strategies = Inr consensus_strategy_table"
  by (simp add: initialize_voting_methods_def initialize_consensus_strategies_def
        bind_methods_def voting_method_table_def consensus_strategy_table_def
        MultiAgentConsensusSystem_names_def)

lemmas example_defs =
  example_heap_def scenario_heap_def scenario_thoughts_def position_def example_system_def
  example_deliberation_def example_task_def

lemmas string_defs = lower_def lower_char_def specificity_count_def specificity_keywords_def

section \<open>Names the classes do not define\<close>

lemma undefined_helpers_are_undefined:
  "filter (\<lambda>name. name \<in> set MultiAgentConsensusSystem_names) undefined_helpers = []"
  by (simp add: undefined_helpers_def MultiAgentConsensusSystem_names_def)

lemma participating_agents_is_no_field:
  "''participating_agents'' \<notin> set ConsensusDeliberation_fields"
  by (simp add: ConsensusDeliberation_fields_def ConsensusDeliberation_required_def)

lemma deliberation_constructor_raises:
  "dataclass_init ConsensusDeliberation_required reach_consensus_keywords
     = Inl (TypeError ''missing required argument: voting_record'')"
  by (simp add: dataclass_init_def ConsensusDeliberation_required_def
        reach_consensus_keywords_def)

section \<open>The strategy selector\<close>

lemma landscape_error:
  "analyze_consensus_landscape tsk ths = Inl e \<Longrightarrow>
     e = TypeError ''> not supported between dict and float''"
  by (auto simp: analyze_consensus_landscape_def Let_def dict_gt_float_def split: if_splits)

text \<open>Whenever the selector returns, the first rule has fired.\<close>

lemma landscape_selects_only_weighted_voting:
  "analyze_consensus_landscape tsk ths = Inr a \<Longrightarrow>
     recommended_strategy a = WEIGHTED_VOTING \<and> recommended_voting a = WEIGHTED_CONSENSUS
     \<and> detect_conflicts ths = []"
  by (auto simp: analyze_consensus_landscape_def Let_def dict_gt_float_def split: if_splits)

lemma scenario_conflicts:
  "detect_conflicts (deref (scenario_heap why1 why2) scenario_thoughts) =
     (FACTUAL_DISAGREEMENT, QUEEN_COORDINATOR, CODE_ARCHITECT, ''Opposite conclusions'') #
     (if have_different_approaches why1 why2
      then [(METHODOLOGICAL_CONFLICT, QUEEN_COORDINATOR, CODE_ARCHITECT,
             ''Different methodological approaches'')]
      else [])"
  by (simp add: scenario_heap_def scenario_thoughts_def position_def deref_def
        analyze_conflict_between_agents_def are_opposite_positions_def opposite_keywords_def
        have_different_priorities_def have_strategic_divergence_def found_words_def
        priority_indicators_def strategic_keywords_def first_words_differ_def
        lower_def lower_char_def)

lemma example_conflicts:
  "length (detect_conflicts (deref example_heap scenario_thoughts)) = 1"
  by (simp add: example_heap_def scenario_conflicts have_different_approaches_def
        found_words_def approach_keywords_def first_words_differ_def lower_def lower_char_def)

lemma example_landscape:
  "analyze_consensus_landscape example_task (deref example_heap scenario_thoughts)
     = Inl (TypeError ''> not supported between dict and float'')"
  using example_conflicts
  by (auto simp: analyze_consensus_landscape_def Let_def dict_gt_float_def)

text \<open>
  C4 at the two positions "implement X" and "avoid X" of the scenario: the agreement
  score is \<open>1/3\<close>, one conflict is detected, the mean evidence quality is \<open>0.314\<close> and the
  mean confidence is \<open>0.75\<close>, so the rules of the claim select Hybrid Adaptive.  The code
  passes the first rule, then compares the dictionary of evidence scores with \<open>0.7\<close> and
  raises \<^verbatim>\<open>TypeError\<close>: no strategy is selected.
\<close>

theorem landscape_selector_raises:
  "calculate_agreement_score [''implement X'', ''avoid X''] = 1 / 3
   \<and> length (detect_conflicts (deref example_heap scenario_thoughts)) = 1
   \<and> np_mean (map snd (evaluate_evidence_quality
        [(QUEEN_COORDINATOR, [''benchmark data'', ''latency metric'']), (CODE_ARCHITECT, [])]))
       = 0.314
   \<and> np_mean [0.9, 0.6] = 0.75
   \<and> analyze_consensus_landscape example_task (deref example_heap scenario_thoughts)
       = Inl (TypeError ''> not supported between dict and float'')"
proof -
  have a: "calculate_agreement_score [''implement X'', ''avoid X''] = 1 / 3"
    by (simp add: calculate_agreement_score_def text_similarity_def split_def is_space_def
          lower_def lower_char_def Let_def)
  have c: "np_mean (map snd (evaluate_evidence_quality
        [(QUEEN_COORDINATOR, [''benchmark data'', ''latency metric'']), (CODE_ARCHITECT, [])]))
       = 0.314"
    by (simp add: evaluate_evidence_quality_def evidence_score_def np_mean_def
          evaluate_single_evidence_def string_defs)
  have d: "np_mean [0.9, 0.6] = 0.75" by (simp add: np_mean_def)
  from a example_conflicts c d example_landscape show ?thesis by blast
qed

section \<open>What the strategies return\<close>

lemma conflict_resolution_raises:
  "\<exists>name. fst (conflict_resolution_consensus now d h refs) = Inl (AttributeError name)"
  by (auto simp: conflict_resolution_consensus_def Let_def collaborative_synthesis_consensus_def
           split: prod.splits)

lemma hybrid_adaptive_raises:
  "\<exists>e. fst (hybrid_adaptive_consensus sys now d h refs) = Inl e"
proof (cases "analyze_consensus_landscape (task d) (deref h refs)")
  case (Inl e)
  then show ?thesis by (simp add: hybrid_adaptive_consensus_def)
next
  case (Inr a)
  obtain name where "fst (conflict_resolution_consensus now d h refs) = Inl (AttributeError name)"
    using conflict_resolution_raises by blast
  then show ?thesis using Inr
    by (cases "conflict_resolution_consensus now d h refs")
       (auto simp: hybrid_adaptive_consensus_def dict_gt_float_def)
qed

text \<open>Five of the eight strategies raise on every input.\<close>

lemma strategies_that_always_raise:
  assumes "s \<in> {COLLABORATIVE_SYNTHESIS, ITERATIVE_REFINEMENT, CONFLICT_RESOLUTION,
                EMERGENT_AGREEMENT, HYBRID_ADAPTIVE}"
  shows "\<exists>e. fst (consensus_func s sys now d h refs) = Inl e"
  using assms conflict_resolution_raises [of now d h refs]
    hybrid_adaptive_raises [of sys now d h refs]
  by (auto simp: collaborative_synthesis_consensus_def iterative_refinement_consensus_def
        emergent_agreement_consensus_def)

lemma sum_list_lower: "\<forall>x\<in>set xs. a \<le> x \<Longrightarrow> a * real (length xs) \<le> sum_list xs"
  by (induction xs) (auto simp: algebra_simps)

lemma sum_list_upper: "\<forall>x\<in>set xs. x \<le> b \<Longrightarrow> sum_list xs \<le> b * real (length xs)"
  by (induction xs) (auto simp: algebra_simps)

lemma np_mean_bounds:
  assumes "xs \<noteq> []" and "\<And>x. x \<in> set xs \<Longrightarrow> a \<le> x \<and> x \<le> b"
  shows "a \<le> np_mean xs \<and> np_mean xs \<le> b"
proof -
  have pos: "0 < real (length xs)" using assms(1) by simp
  have "a * real (length xs) \<le> sum_list xs"
    using assms(2) by (intro sum_list_lower) simp
  moreover have "sum_list xs \<le> b * real (length xs)"
    using assms(2) by (intro sum_list_upper) simp
  ultimately show ?thesis using pos by (simp add: np_mean_def field_simps)
qed

lemma np_mean_confidences:
  assumes "unit_confidences ths" and "ths \<noteq> []"
  shows "0 \<le> np_mean (map (\<lambda>(role, thought). confidence thought) ths)
         \<and> np_mean (map (\<lambda>(role, thought). confidence thought) ths) \<le> 1"
  using assms by (intro np_mean_bounds) (auto simp: unit_confidences_def list_all_iff)

lemma unit_confidences_filter: "unit_confidences ths \<Longrightarrow> unit_confidences (filter P ths)"
  by (auto simp: unit_confidences_def list_all_iff)

lemma fallback_unit_confidence:
  assumes "unit_confidences ths"
  shows "unit_confidence_score (fallback_consensus now ths tsk)"
proof (cases "filter (\<lambda>(role, thought). confidence thought > 0.5) ths = []")
  case True
  then show ?thesis using assms
    by (auto simp: fallback_consensus_def unit_confidence_score_def unit_confidences_def
             split: list.splits)
next
  case False
  then show ?thesis
    using np_mean_confidences [OF unit_confidences_filter [OF assms] False]
    by (simp add: fallback_consensus_def unit_confidence_score_def Let_def)
qed

lemma weighted_voting_unit_confidence:
  assumes "unit_confidences ths"
  shows "unit_confidence_score (fst (weighted_voting_consensus sys now d ths))"
proof (cases "ths = []")
  case True
  then show ?thesis
    by (simp add: weighted_voting_consensus_def Let_def fallback_consensus_def
          unit_confidence_score_def)
next
  case False
  have "0 \<le> np_mean (map (\<lambda>(role, thought). confidence thought) ths) * 1.1"
    using np_mean_confidences [OF assms False] by simp
  then show ?thesis
    using fallback_unit_confidence [OF assms]
    by (simp add: weighted_voting_consensus_def Let_def unit_confidence_score_def)
qed

lemma specialist_authority_unit_confidence:
  assumes "unit_confidences ths"
  shows "unit_confidence_score (fst (specialist_authority_consensus sys now d ths))"
proof (cases "map_of ths (determine_lead_specialist (task d) ths)")
  case None
  then show ?thesis
    using weighted_voting_unit_confidence [OF assms]
    by (simp add: specialist_authority_consensus_def Let_def)
next
  case (Some t)
  then have "(determine_lead_specialist (task d) ths, t) \<in> set ths" by (rule map_of_SomeD)
  with assms have "0 \<le> confidence t \<and> confidence t \<le> 1"
    by (auto simp: unit_confidences_def list_all_iff)
  with Some show ?thesis
    by (simp add: specialist_authority_consensus_def Let_def unit_confidence_score_def)
qed

lemma evidence_based_unit_confidence:
  assumes "unit_confidences ths"
    and "fst (evidence_based_consensus sys now d ths) = Inr insight"
  shows "unit_confidence_score insight"
  using assms(2) weighted_voting_unit_confidence [OF assms(1), of sys now d]
  by (auto simp: evidence_based_consensus_def Let_def split: if_splits prod.splits)

lemma consensus_func_unit_confidence:
  assumes "unit_confidences (deref h refs)"
    and "fst (consensus_func s sys now d h refs) = Inr insight"
  shows "unit_confidence_score insight"
proof (cases s)
  case WEIGHTED_VOTING
  then show ?thesis
    using assms weighted_voting_unit_confidence [OF assms(1), of sys now d]
    by (auto split: prod.splits)
next
  case SPECIALIST_AUTHORITY
  then show ?thesis
    using assms specialist_authority_unit_confidence [OF assms(1), of sys now d]
    by (auto split: prod.splits)
next
  case EVIDENCE_BASED
  then show ?thesis
    using assms evidence_based_unit_confidence [OF assms(1), of sys now d insight]
    by (auto split: prod.splits)
next
  case COLLABORATIVE_SYNTHESIS
  then show ?thesis using assms by (simp add: collaborative_synthesis_consensus_def)
next
  case ITERATIVE_REFINEMENT
  then show ?thesis using assms by (simp add: iterative_refinement_consensus_def)
next
  case CONFLICT_RESOLUTION
  then show ?thesis using assms conflict_resolution_raises [of now d h refs] by auto
next
  case EMERGENT_AGREEMENT
  then show ?thesis using assms by (simp add: emergent_agreement_consensus_def)
next
  case HYBRID_ADAPTIVE
  then show ?thesis using assms hybrid_adaptive_raises [of sys now d h refs] by auto
qed

lemma np_mean_const: "xs \<noteq> [] \<Longrightarrow> np_mean (map (\<lambda>x. c) xs) = c"
  by (simp add: np_mean_def sum_list_triv)

lemma validating_roles_amplify:
  "validating_roles sys (amplify_consensus_quality sys consensus d) d
     = validating_roles sys consensus d"
  by (simp add: validating_roles_def amplify_consensus_quality_def Let_def)

lemma amplify_confidence:
  "confidence_score (amplify_consensus_quality sys consensus d) =
     (if validating_roles sys consensus d = [] then confidence_score consensus
      else min 1 (confidence_score consensus * 1.08))"
  by (simp add: amplify_consensus_quality_def Let_def comp_def np_mean_const)

lemma amplify_unit_confidence:
  "unit_confidence_score insight \<Longrightarrow>
     unit_confidence_score (amplify_consensus_quality sys insight d)"
  by (auto simp: unit_confidence_score_def amplify_confidence min_def)

lemma example_evidence_scores:
  "evaluate_evidence_quality (evidence_registry example_deliberation)
     = [(QUEEN_COORDINATOR, 0.628), (CODE_ARCHITECT, 0)]"
  by (simp add: example_defs evaluate_evidence_quality_def evidence_score_def np_mean_def
        evaluate_single_evidence_def string_defs)

lemma example_weighted_voting:
  "confidence_score (fst (weighted_voting_consensus example_system 0 example_deliberation
      (deref example_heap scenario_thoughts))) = 0.825
   \<and> contributing_agents (fst (weighted_voting_consensus example_system 0 example_deliberation
      (deref example_heap scenario_thoughts))) = [QUEEN_COORDINATOR, CODE_ARCHITECT]"
  apply (simp add: weighted_voting_consensus_def Let_def example_evidence_scores)
  apply (simp add: example_defs deref_def combined_weights_def dict_get_def
      initialize_specialist_weights_def np_mean_def)
  done

text \<open>
  C2: when every confidence of the position map lies in \<open>[0, 1]\<close>, every insight that one
  of the eight strategies returns has its \<open>confidence_score\<close> in \<open>[0, 1]\<close>, and so have the
  fallback consensus and the result of amplifying either.  Weighted voting, specialist
  authority and evidence-based consensus are the strategies that can return an insight;
  the five others raise on every input (\<open>strategies_that_always_raise\<close>).
\<close>

theorem confidence_score_in_unit_interval:
  assumes "unit_confidences (deref h agent_thoughts)"
  shows "(\<forall>s d d' insight.
            fst (consensus_func s sys now d h agent_thoughts) = Inr insight
            \<longrightarrow> unit_confidence_score insight
                \<and> unit_confidence_score (amplify_consensus_quality sys insight d'))
         \<and> unit_confidence_score (fallback_consensus now (deref h agent_thoughts) tsk)
         \<and> (\<forall>d'. unit_confidence_score
              (amplify_consensus_quality sys
                 (fallback_consensus now (deref h agent_thoughts) tsk) d'))"
  using consensus_func_unit_confidence [OF assms] fallback_unit_confidence [OF assms]
    amplify_unit_confidence
  by blast

theorem confidence_score_in_unit_interval_witness:
  "unit_confidences (deref example_heap scenario_thoughts)
   \<and> fst (consensus_func WEIGHTED_VOTING example_system 0 example_deliberation
            example_heap scenario_thoughts)
      = Inr (fst (weighted_voting_consensus example_system 0 example_deliberation
                    (deref example_heap scenario_thoughts)))
   \<and> confidence_score (fst (weighted_voting_consensus example_system 0 example_deliberation
        (deref example_heap scenario_thoughts))) = 0.825
   \<and> unit_confidence_score (fst (weighted_voting_consensus example_system 0
        example_deliberation (deref example_heap scenario_thoughts)))
   \<and> unit_confidence_score (amplify_consensus_quality example_system
        (fst (weighted_voting_consensus example_system 0 example_deliberation
                (deref example_heap scenario_thoughts))) example_deliberation)
   \<and> unit_confidence_score
        (fallback_consensus 0 (deref example_heap scenario_thoughts) example_task)"
proof -
  have u: "unit_confidences (deref example_heap scenario_thoughts)"
    by (simp add: example_defs deref_def unit_confidences_def)
  have r: "fst (consensus_func WEIGHTED_VOTING example_system 0 example_deliberation
            example_heap scenario_thoughts)
      = Inr (fst (weighted_voting_consensus example_system 0 example_deliberation
                    (deref example_heap scenario_thoughts)))"
    by (simp split: prod.splits)
  show ?thesis
    using u r example_weighted_voting
      confidence_score_in_unit_interval [OF u, of example_system 0 example_task]
    by blast
qed

section \<open>Contributing agents\<close>

lemma deref_keys: "map fst (deref h refs) = map fst refs"
  by (simp add: deref_def comp_def case_prod_unfold)

lemma fallback_agents:
  assumes "own_roles ths"
  shows "set (contributing_agents (fallback_consensus now ths tsk)) \<subseteq> set (map fst ths)"
  using assms
  by (auto simp: fallback_consensus_def Let_def own_roles_def split: list.splits)

lemma weighted_voting_agents:
  assumes "own_roles ths"
  shows "set (contributing_agents (fst (weighted_voting_consensus sys now d ths)))
           \<subseteq> set (map fst ths)"
  using fallback_agents [OF assms]
  by (simp add: weighted_voting_consensus_def Let_def)

lemma specialist_authority_agents:
  assumes "own_roles ths"
  shows "set (contributing_agents (fst (specialist_authority_consensus sys now d ths)))
           \<subseteq> set (map fst ths)"
proof (cases "map_of ths (determine_lead_specialist (task d) ths)")
  case None
  then show ?thesis using weighted_voting_agents [OF assms]
    by (simp add: specialist_authority_consensus_def Let_def)
next
  case (Some t)
  then have "(determine_lead_specialist (task d) ths, t) \<in> set ths" by (rule map_of_SomeD)
  then have "determine_lead_specialist (task d) ths \<in> fst ` set ths" by force
  with Some show ?thesis
    by (auto simp: specialist_authority_consensus_def Let_def)
qed

lemma consensus_func_agents:
  assumes "own_roles (deref h refs)"
    and "fst (consensus_func s sys now d h refs) = Inr insight"
  shows "set (contributing_agents insight) \<subseteq> set (map fst refs)"
proof (cases s)
  case WEIGHTED_VOTING
  then show ?thesis using assms weighted_voting_agents [OF assms(1), of sys now d]
    by (auto simp: deref_keys split: prod.splits)
next
  case SPECIALIST_AUTHORITY
  then show ?thesis using assms specialist_authority_agents [OF assms(1), of sys now d]
    by (auto simp: deref_keys split: prod.splits)
next
  case EVIDENCE_BASED
  then show ?thesis using assms weighted_voting_agents [OF assms(1), of sys now d]
    by (auto simp: deref_keys evidence_based_consensus_def Let_def
          split: prod.splits if_splits)
next
  case COLLABORATIVE_SYNTHESIS
  then show ?thesis using assms by (simp add: collaborative_synthesis_consensus_def)
next
  case ITERATIVE_REFINEMENT
  then show ?thesis using assms by (simp add: iterative_refinement_consensus_def)
next
  case CONFLICT_RESOLUTION
  then show ?thesis using assms conflict_resolution_raises [of now d h refs] by auto
next
  case EMERGENT_AGREEMENT
  then show ?thesis using assms by (simp add: emergent_agreement_consensus_def)
next
  case HYBRID_ADAPTIVE
  then show ?thesis using assms hybrid_adaptive_raises [of sys now d h refs] by auto
qed

text \<open>
  Weighted voting (line 413), specialist authority (line 453) and the first branch of the
  fallback consensus (line 911) all list keys of the position map.  So, where every
  position is stored under its own \<open>agent_role\<close>, the \<open>contributing_agents\<close> of every
  insight that a strategy returns, and of the fallback consensus, are keys of the map;
  and the first branch of the fallback lists keys whatever the positions name.
\<close>

lemma contributing_agents_within_keys:
  assumes "own_roles (deref h agent_thoughts)"
  shows "(\<forall>s d insight.
            fst (consensus_func s sys now d h agent_thoughts) = Inr insight
            \<longrightarrow> set (contributing_agents insight) \<subseteq> set (map fst agent_thoughts))
         \<and> set (contributing_agents (fallback_consensus now (deref h agent_thoughts) tsk))
             \<subseteq> set (map fst agent_thoughts)"
  using consensus_func_agents [OF assms] fallback_agents [OF assms, of now tsk]
  by (simp add: deref_keys)

lemma fallback_high_confidence_agents:
  assumes "filter (\<lambda>(role, thought). confidence thought > 0.5) ths \<noteq> []"
  shows "set (contributing_agents (fallback_consensus now ths tsk)) \<subseteq> set (map fst ths)"
  using assms by (auto simp: fallback_consensus_def Let_def)

text \<open>
  C3 at a position map whose one entry files, under the key \<^verbatim>\<open>SECURITY_SPECIALIST\<close>, a
  position of \<^verbatim>\<open>agent_role = QUEEN_COORDINATOR\<close>.  With confidence \<open>0.3\<close> the fallback
  consensus takes its second branch and returns \<^verbatim>\<open>[any_thought.agent_role]\<close> (line 923),
  which is \<^verbatim>\<open>[QUEEN_COORDINATOR]\<close> and no key of the map.  On the same entry with
  confidence \<open>0.9\<close> the first branch of the fallback returns the key, and so does weighted
  voting at confidence \<open>0.3\<close>: the second branch alone reads the role from the position.
\<close>

theorem fallback_reads_agent_role:
  "map fst (misfiled_thoughts 0.3) = [SECURITY_SPECIALIST]
   \<and> contributing_agents (fallback_consensus 0 (misfiled_thoughts 0.3) example_task)
       = [QUEEN_COORDINATOR]
   \<and> contributing_agents (fallback_consensus 0 (misfiled_thoughts 0.9) example_task)
       = [SECURITY_SPECIALIST]
   \<and> contributing_agents
        (fst (weighted_voting_consensus example_system 0 example_deliberation
                (misfiled_thoughts 0.3)))
       = [SECURITY_SPECIALIST]"
proof -
  have w: "contributing_agents
        (fst (weighted_voting_consensus example_system 0 example_deliberation
                (misfiled_thoughts 0.3)))
       = [SECURITY_SPECIALIST]"
    apply (simp add: weighted_voting_consensus_def Let_def example_evidence_scores)
    apply (simp add: misfiled_thoughts_def position_def example_system_def
        combined_weights_def dict_get_def initialize_specialist_weights_def)
    done
  show ?thesis
    using w by (simp add: fallback_consensus_def misfiled_thoughts_def position_def)
qed

section \<open>Quality amplification\<close>

text \<open>
  C8, as stated, fails: the amplifier keeps no mark of having run.  An insight of
  confidence \<open>0.5\<close> with one validated contributor is amplified to \<open>0.54\<close>, and amplifying
  that result again gives \<open>0.5832\<close>.
\<close>

theorem amplify_twice_counterexample:
  "\<not> confidence_score (amplify_consensus_quality example_system
          (amplify_consensus_quality example_system example_insight example_deliberation)
          example_deliberation)
       \<le> confidence_score
           (amplify_consensus_quality example_system example_insight example_deliberation)"
  by (simp add: amplify_confidence validating_roles_amplify)
     (simp add: validating_roles_def example_system_def example_insight_def
        example_deliberation_def dict_has_def)

text \<open>
  C8, amended: every application of the amplifier to an insight with at least one
  validated contributor multiplies the \<open>confidence_score\<close> by \<open>1.08\<close> and caps it at \<open>1.0\<close>,
  the second application like the first; with no validated contributor the insight is
  returned as it is.  So a second application does not increase the confidence exactly
  when no contributor is validated, or the amplified confidence is already \<open>1.0\<close>, or it
  is not positive.
\<close>

theorem amplify_twice_amended:
  "(validating_roles sys consensus d \<noteq> [] \<longrightarrow>
      confidence_score (amplify_consensus_quality sys consensus d)
        = min 1 (confidence_score consensus * 1.08)
      \<and> confidence_score
          (amplify_consensus_quality sys (amplify_consensus_quality sys consensus d) d)
        = min 1 (confidence_score (amplify_consensus_quality sys consensus d) * 1.08))
   \<and> (validating_roles sys consensus d = [] \<longrightarrow>
        amplify_consensus_quality sys (amplify_consensus_quality sys consensus d) d
          = consensus)
   \<and> (confidence_score
          (amplify_consensus_quality sys (amplify_consensus_quality sys consensus d) d)
        \<le> confidence_score (amplify_consensus_quality sys consensus d)
      \<longleftrightarrow> validating_roles sys consensus d = []
          \<or> confidence_score (amplify_consensus_quality sys consensus d) = 1
          \<or> confidence_score (amplify_consensus_quality sys consensus d) \<le> 0)"
proof -
  have a: "validating_roles sys consensus d = [] \<Longrightarrow>
        amplify_consensus_quality sys consensus d = consensus"
    by (simp add: amplify_consensus_quality_def)
  show ?thesis
    using a by (auto simp: amplify_confidence validating_roles_amplify min_def)
qed

theorem amplify_twice_amended_witness:
  "validating_roles example_system example_insight example_deliberation \<noteq> []
   \<and> confidence_score
       (amplify_consensus_quality example_system example_insight example_deliberation) = 0.54
   \<and> confidence_score (amplify_consensus_quality example_system
        (amplify_consensus_quality example_system example_insight example_deliberation)
        example_deliberation) = 0.5832"
  using amplify_twice_amended [of example_system example_insight example_deliberation]
  by (simp add: validating_roles_def example_system_def example_insight_def
        example_deliberation_def dict_has_def amplify_confidence)

section \<open>Resolution of factual disagreements\<close>

lemma scale_confidence_nth:
  "a < length h \<Longrightarrow> scale_confidence a k h ! b =
     (if b = a then (h ! a)\<lparr>confidence := confidence (h ! a) * k\<rparr> else h ! b)"
  by (simp add: scale_confidence_def)

lemma append_reasoning_nth:
  "a < length h \<Longrightarrow> append_reasoning a s h ! b =
     (if b = a then (h ! a)\<lparr>reasoning := reasoning (h ! a) @ s\<rparr> else h ! b)"
  by (simp add: append_reasoning_def)

lemma length_scale_confidence: "length (scale_confidence a k h) = length h"
  by (simp add: scale_confidence_def)

lemma length_append_reasoning: "length (append_reasoning a s h) = length h"
  by (simp add: append_reasoning_def)

lemmas heap_simps =
  scale_confidence_nth append_reasoning_nth length_scale_confidence length_append_reasoning

lemma factual_pair_resolution:
  assumes "map_of agent_thoughts role1 = Some a1" and "map_of agent_thoughts role2 = Some a2"
    and "a1 < length h" and "a2 < length h"
    and "h' = snd (resolve_factual_disagreement agent_thoughts h [(role1, role2, descr)])"
  shows
    "evidence_strength (h ! a1) = real (length (evidence (h ! a1))) * confidence (h ! a1)
     \<and> (evidence_strength (h ! a1) > evidence_strength (h ! a2) \<longrightarrow>
          confidence (h' ! a2) = confidence (h ! a2) * 0.5
          \<and> reasoning (h' ! a2) = reasoning (h ! a2) @ '' [Conflict resolved in favor of '' @
               role_value role1 @ '' due to stronger evidence]''
          \<and> h' ! a1 = h ! a1)
     \<and> (evidence_strength (h ! a2) > evidence_strength (h ! a1) \<longrightarrow>
          confidence (h' ! a1) = confidence (h ! a1) * 0.5
          \<and> reasoning (h' ! a1) = reasoning (h ! a1) @ '' [Conflict resolved in favor of '' @
               role_value role2 @ '' due to stronger evidence]''
          \<and> h' ! a2 = h ! a2)
     \<and> (evidence_strength (h ! a1) = evidence_strength (h ! a2) \<and> a1 \<noteq> a2 \<longrightarrow>
          confidence (h' ! a1) = confidence (h ! a1) * 0.8
          \<and> confidence (h' ! a2) = confidence (h ! a2) * 0.8
          \<and> reasoning (h' ! a1) =
              reasoning (h ! a1) @ '' [Conflict detected - evidence equally strong]''
          \<and> reasoning (h' ! a2) =
              reasoning (h ! a2) @ '' [Conflict detected - evidence equally strong]'')
     \<and> (a1 = a2 \<longrightarrow> confidence (h' ! a1) = confidence (h ! a1) * 0.8 * 0.8)
     \<and> (\<forall>a. a \<noteq> a1 \<and> a \<noteq> a2 \<longrightarrow> h' ! a = h ! a)
     \<and> length h' = length h
     \<and> fst (resolve_factual_disagreement agent_thoughts h [(role1, role2, descr)])
         = agent_thoughts
     \<and> resolve_factual_disagreement agent_thoughts h ((role1, role2, descr) # conflicts)
         = resolve_factual_disagreement agent_thoughts h' conflicts"
  using assms
  by (auto simp: resolve_factual_disagreement_def resolve_factual_pair_def Let_def heap_simps
        evidence_strength_def)

lemma scenario_resolution:
  "confidence (snd (resolve_conflicts now scenario_thoughts (scenario_heap why1 why2)
       (detect_conflicts (deref (scenario_heap why1 why2) scenario_thoughts))) ! 1) = 0.3"
proof (cases "have_different_approaches why1 why2")
  case True
  then show ?thesis
    unfolding scenario_conflicts
    by (simp add: resolve_conflicts_def conflict_types_in_order_def
        resolve_type_def resolve_factual_disagreement_def resolve_factual_pair_def
        resolve_methodological_conflict_def resolve_methodological_pair_def
        evidence_strength_def heap_simps Let_def nth_append
        scenario_heap_def scenario_thoughts_def position_def)
next
  case False
  then show ?thesis
    unfolding scenario_conflicts
    by (simp add: resolve_conflicts_def conflict_types_in_order_def
        resolve_type_def resolve_factual_disagreement_def resolve_factual_pair_def
        evidence_strength_def heap_simps Let_def
        scenario_heap_def scenario_thoughts_def position_def)
qed

text \<open>
  C5.  Let two roles of the dictionary hold the positions at \<open>a1\<close> and \<open>a2\<close>, and let \<open>h'\<close>
  be the heap after the resolver has treated the factual disagreement between them.
  The evidence strength of a side is the number of its evidence items times its
  confidence.  The strictly weaker side has its confidence halved and its reasoning
  annotated with the name of the winner, and the stronger side is untouched.  On a tie
  both confidences are multiplied by \<open>0.8\<close> and both reasonings are annotated; when the two
  roles hold one shared object (which the methodological resolver brings about), the
  two multiplications fall on that object.  No other object changes, the dictionary is
  returned as it was, and the pairs of a longer conflict list are treated one after the
  other in this way, each on the heap its predecessors have left.  In the scenario,
  whatever the two reasoning texts and the clock, exactly one factual disagreement is
  detected, between P1 and P2, and resolving the detected conflicts leaves the
  confidence of P2 at \<open>0.3\<close>.
\<close>

theorem factual_disagreement_resolution:
  assumes "map_of agent_thoughts role1 = Some a1" and "map_of agent_thoughts role2 = Some a2"
    and "a1 < length h" and "a2 < length h"
    and "h' = snd (resolve_factual_disagreement agent_thoughts h [(role1, role2, descr)])"
  shows
    "evidence_strength (h ! a1) = real (length (evidence (h ! a1))) * confidence (h ! a1)
     \<and> (evidence_strength (h ! a1) > evidence_strength (h ! a2) \<longrightarrow>
          confidence (h' ! a2) = confidence (h ! a2) * 0.5
          \<and> reasoning (h' ! a2) = reasoning (h ! a2) @ '' [Conflict resolved in favor of '' @
               role_value role1 @ '' due to stronger evidence]''
          \<and> h' ! a1 = h ! a1)
     \<and> (evidence_strength (h ! a2) > evidence_strength (h ! a1) \<longrightarrow>
          confidence (h' ! a1) = confidence (h ! a1) * 0.5
          \<and> reasoning (h' ! a1) = reasoning (h ! a1) @ '' [Conflict resolved in favor of '' @
               role_value role2 @ '' due to stronger evidence]''
          \<and> h' ! a2 = h ! a2)
     \<and> (evidence_strength (h ! a1) = evidence_strength (h ! a2) \<and> a1 \<noteq> a2 \<longrightarrow>
          confidence (h' ! a1) = confidence (h ! a1) * 0.8
          \<and> confidence (h' ! a2) = confidence (h ! a2) * 0.8
          \<and> reasoning (h' ! a1) =
              reasoning (h ! a1) @ '' [Conflict detected - evidence equally strong]''
          \<and> reasoning (h' ! a2) =
              reasoning (h ! a2) @ '' [Conflict detected - evidence equally strong]'')
     \<and> (a1 = a2 \<longrightarrow> confidence (h' ! a1) = confidence (h ! a1) * 0.8 * 0.8)
     \<and> (\<forall>a. a \<noteq> a1 \<and> a \<noteq> a2 \<longrightarrow> h' ! a = h ! a)
     \<and> length h' = length h
     \<and> fst (resolve_factual_disagreement agent_thoughts h [(role1, role2, descr)])
         = agent_thoughts
     \<and> resolve_factual_disagreement agent_thoughts h ((role1, role2, descr) # conflicts)
         = resolve_factual_disagreement agent_thoughts h' conflicts
     \<and> (\<forall>why1 why2 now.
          filter (\<lambda>c. fst c = FACTUAL_DISAGREEMENT)
            (detect_conflicts (deref (scenario_heap why1 why2) scenario_thoughts))
          = [(FACTUAL_DISAGREEMENT, QUEEN_COORDINATOR, CODE_ARCHITECT,
              ''Opposite conclusions'')]
          \<and> confidence
              (snd (resolve_conflicts now scenario_thoughts (scenario_heap why1 why2)
                      (detect_conflicts (deref (scenario_heap why1 why2) scenario_thoughts)))
               ! 1) = 0.3)"
proof -
  have scen: "\<forall>why1 why2 now.
          filter (\<lambda>c. fst c = FACTUAL_DISAGREEMENT)
            (detect_conflicts (deref (scenario_heap why1 why2) scenario_thoughts))
          = [(FACTUAL_DISAGREEMENT, QUEEN_COORDINATOR, CODE_ARCHITECT,
              ''Opposite conclusions'')]
          \<and> confidence
              (snd (resolve_conflicts now scenario_thoughts (scenario_heap why1 why2)
                      (detect_conflicts (deref (scenario_heap why1 why2) scenario_thoughts)))
               ! 1) = 0.3"
    using scenario_resolution by (simp add: scenario_conflicts)
  from factual_pair_resolution [OF assms] scen show ?thesis by blast
qed

text \<open>
  The theorem at four inputs: the scenario (P1 stronger), the scenario with the roles
  exchanged (second side stronger), two positions without evidence (a tie between two
  objects), and two roles that hold one object.
\<close>

theorem factual_disagreement_resolution_witness:
  "evidence_strength (example_heap ! 0) = 1.8 \<and> evidence_strength (example_heap ! 1) = 0
   \<and> confidence (snd (resolve_factual_disagreement scenario_thoughts example_heap
        [(QUEEN_COORDINATOR, CODE_ARCHITECT, ''Opposite conclusions'')]) ! 1) = 0.3
   \<and> confidence (snd (resolve_factual_disagreement scenario_thoughts example_heap
        [(QUEEN_COORDINATOR, CODE_ARCHITECT, ''Opposite conclusions'')]) ! 0) = 0.9
   \<and> confidence (snd (resolve_factual_disagreement scenario_thoughts example_heap
        [(CODE_ARCHITECT, QUEEN_COORDINATOR, ''Opposite conclusions'')]) ! 1) = 0.3
   \<and> confidence (snd (resolve_factual_disagreement scenario_thoughts tie_heap
        [(QUEEN_COORDINATOR, CODE_ARCHITECT, ''Opposite conclusions'')]) ! 0) = 0.4
   \<and> confidence (snd (resolve_factual_disagreement scenario_thoughts tie_heap
        [(QUEEN_COORDINATOR, CODE_ARCHITECT, ''Opposite conclusions'')]) ! 1) = 0.4
   \<and> confidence (snd (resolve_factual_disagreement shared_thoughts tie_heap
        [(QUEEN_COORDINATOR, CODE_ARCHITECT, ''Opposite conclusions'')]) ! 0) = 0.32"
proof -
  have m: "map_of scenario_thoughts QUEEN_COORDINATOR = Some 0"
    "map_of scenario_thoughts CODE_ARCHITECT = Some 1"
    "map_of shared_thoughts QUEEN_COORDINATOR = Some 0"
    "map_of shared_thoughts CODE_ARCHITECT = Some 0"
    by (simp_all add: scenario_thoughts_def shared_thoughts_def)
  have l: "0 < length example_heap" "1 < length example_heap"
    "0 < length tie_heap" "1 < length tie_heap"
    by (simp_all add: example_heap_def scenario_heap_def tie_heap_def)
  have s: "evidence_strength (example_heap ! 0) = 1.8"
    "evidence_strength (example_heap ! 1) = 0"
    "evidence_strength (tie_heap ! 0) = evidence_strength (tie_heap ! 1)"
    by (simp_all add: example_heap_def scenario_heap_def tie_heap_def position_def
          evidence_strength_def)
  have c: "confidence (example_heap ! 0) = 0.9" "confidence (example_heap ! 1) = 0.6"
    "confidence (tie_heap ! 0) = 0.5" "confidence (tie_heap ! 1) = 0.5"
    by (simp_all add: example_heap_def scenario_heap_def tie_heap_def position_def)
  have gt: "evidence_strength (example_heap ! 0) > evidence_strength (example_heap ! 1)"
    using s by simp
  have ne: "(0::nat) \<noteq> 1" by simp
  note forward = factual_disagreement_resolution [OF m(1) m(2) l(1) l(2) refl,
      of "''Opposite conclusions''"]
  note backward = factual_disagreement_resolution [OF m(2) m(1) l(2) l(1) refl,
      of "''Opposite conclusions''"]
  note tie = factual_disagreement_resolution [OF m(1) m(2) l(3) l(4) refl,
      of "''Opposite conclusions''"]
  note shared = factual_disagreement_resolution [OF m(3) m(4) l(3) l(3) refl,
      of "''Opposite conclusions''"]
  have f1: "confidence (snd (resolve_factual_disagreement scenario_thoughts example_heap
        [(QUEEN_COORDINATOR, CODE_ARCHITECT, ''Opposite conclusions'')]) ! 1)
      = confidence (example_heap ! 1) * 0.5"
    using forward gt by blast
  have f0: "snd (resolve_factual_disagreement scenario_thoughts example_heap
        [(QUEEN_COORDINATOR, CODE_ARCHITECT, ''Opposite conclusions'')]) ! 0
      = example_heap ! 0"
    using forward gt by blast
  have b1: "confidence (snd (resolve_factual_disagreement scenario_thoughts example_heap
        [(CODE_ARCHITECT, QUEEN_COORDINATOR, ''Opposite conclusions'')]) ! 1)
      = confidence (example_heap ! 1) * 0.5"
    using backward gt by blast
  have t0: "confidence (snd (resolve_factual_disagreement scenario_thoughts tie_heap
        [(QUEEN_COORDINATOR, CODE_ARCHITECT, ''Opposite conclusions'')]) ! 0)
      = confidence (tie_heap ! 0) * 0.8"
    using tie s(3) ne by blast
  have t1: "confidence (snd (resolve_factual_disagreement scenario_thoughts tie_heap
        [(QUEEN_COORDINATOR, CODE_ARCHITECT, ''Opposite conclusions'')]) ! 1)
      = confidence (tie_heap ! 1) * 0.8"
    using tie s(3) ne by blast
  have sh: "confidence (snd (resolve_factual_disagreement shared_thoughts tie_heap
        [(QUEEN_COORDINATOR, CODE_ARCHITECT, ''Opposite conclusions'')]) ! 0)
      = confidence (tie_heap ! 0) * 0.8 * 0.8"
    using shared by blast
  show ?thesis
    using s c f1 f0 b1 t0 t1 sh by simp
qed

section \<open>The orchestrator\<close>

lemma reach_consensus_never_returns:
  "\<exists>msg. reach_consensus sys now tsk h refs strategy_arg voting_method_arg
            = (Inl (TypeError msg), sys, h)"
  by (cases "analyze_consensus_landscape tsk (deref h refs)")
     (auto simp: reach_consensus_def deliberation_constructor_raises dest: landscape_error)

lemma try_block_raises:
  "\<exists>e d' h'. try_block sys now d h refs = (Inl e, sys, d', h', False)"
  by (cases "consensus_func (strategy d) sys now d h refs" rule: prod_cases3)
     (auto simp: try_block_def validate_consensus_quality_def split: sum.splits)

text \<open>
  Had the deliberation been constructed, the session would still end in the \<^verbatim>\<open>except\<close>
  clause: the history stays as it was and the fallback consensus is returned.
\<close>

lemma deliberate_history:
  "consensus_history (fst (snd (deliberate sys now tsk d h refs))) = consensus_history sys"
  using try_block_raises [of "sys\<lparr>active_deliberations :=
          dict_set (active_deliberations sys) (deliberation_id d) d\<rparr>" now d h refs]
  by (auto simp: deliberate_def Let_def)

lemma deliberate_returns_fallback:
  "\<exists>h'. fst (deliberate sys now tsk d h refs)
           = Inr (fallback_consensus now (deref h' refs) tsk)"
  using try_block_raises [of "sys\<lparr>active_deliberations :=
          dict_set (active_deliberations sys) (deliberation_id d) d\<rparr>" now d h refs]
  by (auto simp: deliberate_def Let_def)

text \<open>The three branches of the fallback consensus.\<close>

lemma fallback_consensus_cases:
  "(filter (\<lambda>(role, thought). confidence thought > 0.5) ths \<noteq> [] \<longrightarrow>
      contributing_agents (fallback_consensus now ths tsk)
        = map fst (filter (\<lambda>(role, thought). confidence thought > 0.5) ths)
      \<and> confidence_score (fallback_consensus now ths tsk)
        = np_mean (map (\<lambda>(role, thought). confidence thought)
            (filter (\<lambda>(role, thought). confidence thought > 0.5) ths))
      \<and> synthesized_content (fallback_consensus now ths tsk)
        = Text (join [CHR 0x0A, CHR 0x0A] (map (\<lambda>(role, thought). content thought)
            (filter (\<lambda>(role, thought). confidence thought > 0.5) ths))))
   \<and> (filter (\<lambda>(role, thought). confidence thought > 0.5) ths = []
        \<and> ths = (role, thought) # rest \<longrightarrow>
      contributing_agents (fallback_consensus now ths tsk) = [agent_role thought]
      \<and> confidence_score (fallback_consensus now ths tsk) = confidence thought * 0.5
      \<and> synthesized_content (fallback_consensus now ths tsk) = Text (content thought))
   \<and> (ths = [] \<longrightarrow>
      contributing_agents (fallback_consensus now ths tsk) = []
      \<and> confidence_score (fallback_consensus now ths tsk) = 0.1)"
  by (auto simp: fallback_consensus_def Let_def)

lemma single_landscape:
  "\<exists>a. analyze_consensus_landscape example_task (deref single_heap single_thoughts) = Inr a"
  by (simp add: analyze_consensus_landscape_def Let_def single_heap_def single_thoughts_def
        deref_def calculate_agreement_score_def)

text \<open>
  C1 at two inputs.  With the two positions of the scenario and no strategy given, the
  landscape analysis raises \<^verbatim>\<open>TypeError\<close> before the \<^verbatim>\<open>try\<close> statement.  With a single
  position the analysis returns, and the constructor of \<^verbatim>\<open>ConsensusDeliberation\<close>, called
  without \<^verbatim>\<open>voting_record\<close>, raises \<^verbatim>\<open>TypeError\<close>, also before the \<^verbatim>\<open>try\<close> statement.
  Both exceptions leave \<^verbatim>\<open>reach_consensus\<close>; no insight is returned.
\<close>

theorem reach_consensus_raises:
  "reach_consensus example_system 0 example_task example_heap scenario_thoughts None None
     = (Inl (TypeError ''> not supported between dict and float''),
        example_system, example_heap)
   \<and> reach_consensus example_system 0 example_task single_heap single_thoughts None None
     = (Inl (TypeError ''missing required argument: voting_record''),
        example_system, single_heap)"
  using example_landscape single_landscape
  by (auto simp: reach_consensus_def deliberation_constructor_raises)

text \<open>
  C7 at a single position with the strategy Weighted Voting: \<^verbatim>\<open>reach_consensus\<close> raises
  when it constructs the deliberation, and the history of the example system stays
  empty.  With the deliberation constructed by hand and handed to the rest of the
  method, the validation raises, the \<^verbatim>\<open>except\<close> clause returns the fallback consensus,
  and the history is still empty: the clause stamps the end time and does not append.
\<close>

theorem history_not_recorded:
  "reach_consensus example_system 0 example_task single_heap single_thoughts
       (Some WEIGHTED_VOTING) None
     = (Inl (TypeError ''missing required argument: voting_record''),
        example_system, single_heap)
   \<and> consensus_history example_system = []
   \<and> fst (deliberate example_system 0 example_task example_deliberation
            example_heap scenario_thoughts)
     = Inr (fallback_consensus 0 (deref example_heap scenario_thoughts) example_task)
   \<and> consensus_history (fst (snd (deliberate example_system 0 example_task
        example_deliberation example_heap scenario_thoughts))) = []"
proof -
  have g: "try_block sys now example_deliberation h refs =
     (Inl (AttributeError ''participating_agents''), sys,
      snd (weighted_voting_consensus sys now example_deliberation (deref h refs)), h, False)"
    for sys now h refs
    by (simp add: try_block_def example_deliberation_def validate_consensus_quality_def
          split: prod.splits)
  have h: "consensus_history example_system = []" by (simp add: example_system_def)
  show ?thesis using single_landscape h
    by (auto simp: reach_consensus_def deliberation_constructor_raises deliberate_def g
          Let_def)
qed

text \<open>
  C9 at the empty position map, for any system, clock, task, strategy and voting method:
  \<^verbatim>\<open>reach_consensus\<close> raises \<^verbatim>\<open>TypeError\<close> at the constructor of the deliberation and
  returns nothing.  The fallback consensus of the empty map is the sentinel with no
  contributor and confidence \<open>0.1\<close>, as the claim says of it
  (\<open>fallback_consensus_cases\<close> has its three branches).
\<close>

theorem empty_map_raises:
  "reach_consensus sys now tsk [] [] strategy_arg voting_method_arg
     = (Inl (TypeError ''missing required argument: voting_record''), sys, [])
   \<and> contributing_agents (fallback_consensus now [] tsk) = []
   \<and> confidence_score (fallback_consensus now [] tsk) = 0.1"
  by (simp add: reach_consensus_def analyze_consensus_landscape_def Let_def deref_def
        calculate_agreement_score_def deliberation_constructor_raises fallback_consensus_def)

end
